theory Spec2Isabelle
  imports Complex_Main "HOL-Library.Multiset"
begin

section \<open>JavaScript values\<close>

subsection \<open>Strings\<close>

text \<open>
  A JavaScript string is a sequence of UTF-16 code units; \<open>length\<close>, \<open>slice\<close>,
  \<open>endsWith\<close> and \<open>trim\<close> all count and compare code units. A string is modelled
  as the list of its code units. \<open>ascii\<close> embeds an ASCII literal of the source; the
  Chinese literals of the source are written out as their code units.
\<close>

type_synonym jsstring = "nat list"

definition ascii :: "string \<Rightarrow> jsstring" where
  "ascii s = map of_char s"

text \<open>
  \<open>String.prototype.trim\<close> removes the code units of WhiteSpace and LineTerminator
  (ECMA-262): TAB, LF, VT, FF, CR, SP, NBSP, U+1680, U+2000 to U+200A, U+2028, U+2029,
  U+202F, U+205F, U+3000 and U+FEFF, from both ends.
\<close>

definition isWhiteSpace :: "nat \<Rightarrow> bool" where
  "isWhiteSpace c \<longleftrightarrow>
     c \<in> set [9, 10, 11, 12, 13, 32, 160, 5760, 8232, 8233, 8239, 8287, 12288, 65279]
     \<or> (8192 \<le> c \<and> c \<le> 8202)"

definition trim :: "jsstring \<Rightarrow> jsstring" where
  "trim s = rev (dropWhile isWhiteSpace (rev (dropWhile isWhiteSpace s)))"

definition endsWith :: "jsstring \<Rightarrow> jsstring \<Rightarrow> bool" where
  "endsWith s t \<longleftrightarrow> length t \<le> length s \<and> drop (length s - length t) s = t"

definition startsWith :: "jsstring \<Rightarrow> jsstring \<Rightarrow> bool" where
  "startsWith s t \<longleftrightarrow> take (length t) s = t"

text \<open>\<open>s.slice(0, -1)\<close>: everything but the last code unit.\<close>

definition slice_0_neg1 :: "jsstring \<Rightarrow> jsstring" where
  "slice_0_neg1 s = take (length s - 1) s"

text \<open>\<open>s.slice(0, n)\<close> for a non-negative \<open>n\<close>.\<close>

definition slice_0 :: "nat \<Rightarrow> jsstring \<Rightarrow> jsstring" where
  "slice_0 n s = take n s"

text \<open>
  The decimal text of an integer, as a template literal prints an integral number
  (below \<open>10^21\<close> in magnitude).
\<close>

fun digits :: "nat \<Rightarrow> jsstring" where
  "digits n = (if n < 10 then [48 + n] else digits (n div 10) @ [48 + n mod 10])"

declare digits.simps [simp del]

definition num_to_str :: "int \<Rightarrow> jsstring" where
  "num_to_str i = (if i < 0 then 45 # digits (nat (- i)) else digits (nat i))"

text \<open>\<open>Math.round\<close>: the nearest integer, a tie going up.\<close>

definition Math_round :: "rat \<Rightarrow> int" where
  "Math_round x = \<lfloor>x + 1 / 2\<rfloor>"

subsection \<open>Parsed JSON\<close>

text \<open>
  The value \<open>JSON.parse\<close> or \<open>response.json()\<close> yields. A number carries the exact
  value of the double it was parsed to; an object is the list of its own properties in
  insertion order, each key once. \<open>undefined\<close>, which no JSON text denotes but
  property access produces, is \<open>None\<close> of \<open>json option\<close>.
\<close>

datatype json =
    JNull
  | JBool bool
  | JNum rat
  | JStr jsstring
  | JArr "json list"
  | JObj "(jsstring \<times> json) list"

text \<open>
  What the model takes from the JavaScript engine rather than computing it: \<open>JSON.parse\<close>
  (which throws a SyntaxError on text that is not JSON), \<open>JSON.stringify(v, null, 2)\<close>,
  the decimal text of a number, whether the number a string converts to is positive,
  the TypeError raised by reading a property of \<open>null\<close>, and the TypeError raised
  by calling what is not a function.
\<close>

record js_error =
  err_name :: jsstring
  err_message :: jsstring

record js_runtime =
  JSON_parse :: "jsstring \<Rightarrow> js_error + json"
  JSON_stringify :: "json \<Rightarrow> jsstring"
  num_str :: "rat \<Rightarrow> jsstring"
  str_gt0 :: "jsstring \<Rightarrow> bool"
  TypeError_null :: "jsstring \<Rightarrow> js_error"
  TypeError_not_function :: "jsstring \<Rightarrow> js_error"

text \<open>\<open>new Error(msg)\<close>\<close>

definition new_Error :: "jsstring \<Rightarrow> js_error" where
  "new_Error msg = \<lparr>err_name = ascii ''Error'', err_message = msg\<rparr>"

text \<open>Truthiness of a value (\<open>None\<close> is \<open>undefined\<close>).\<close>

definition truthy :: "json option \<Rightarrow> bool" where
  "truthy v =
     (case v of
        None \<Rightarrow> False
      | Some JNull \<Rightarrow> False
      | Some (JBool b) \<Rightarrow> b
      | Some (JNum n) \<Rightarrow> n \<noteq> 0
      | Some (JStr s) \<Rightarrow> s \<noteq> []
      | Some (JArr xs) \<Rightarrow> True
      | Some (JObj kvs) \<Rightarrow> True)"

text \<open>
  \<open>v.k\<close> on a value that is not \<open>null\<close>, for the property names the service reads
  (\<open>data\<close>, \<open>error\<close>, \<open>message\<close>, \<open>choices\<close>, \<open>delta\<close>, \<open>content\<close>,
  \<open>tool_calls\<close>, \<open>function_call\<close>): none of them is defined by a prototype, so only
  an object can hold one.
\<close>

definition member :: "json \<Rightarrow> jsstring \<Rightarrow> json option" where
  "member v k = (case v of JObj kvs \<Rightarrow> map_of kvs k | _ \<Rightarrow> None)"

text \<open>\<open>v?.k\<close>: \<open>undefined\<close> when \<open>v\<close> is \<open>undefined\<close> or \<open>null\<close>.\<close>

definition opt_member :: "json option \<Rightarrow> jsstring \<Rightarrow> json option" where
  "opt_member v k =
     (case v of None \<Rightarrow> None | Some JNull \<Rightarrow> None | Some x \<Rightarrow> member x k)"

text \<open>\<open>v?.[0]\<close>: the first element of an array, the first code unit of a string, the
  property \<open>0\<close> of an object.\<close>

definition opt_index0 :: "json option \<Rightarrow> json option" where
  "opt_index0 v =
     (case v of
        Some (JArr xs) \<Rightarrow> (case xs of [] \<Rightarrow> None | x # _ \<Rightarrow> Some x)
      | Some (JStr s) \<Rightarrow> (case s of [] \<Rightarrow> None | c # _ \<Rightarrow> Some (JStr [c]))
      | Some (JObj kvs) \<Rightarrow> map_of kvs (ascii ''0'')
      | _ \<Rightarrow> None)"

text \<open>\<open>v?.length\<close>\<close>

definition opt_length :: "json option \<Rightarrow> json option" where
  "opt_length v =
     (case v of
        Some (JArr xs) \<Rightarrow> Some (JNum (of_nat (length xs)))
      | Some (JStr s) \<Rightarrow> Some (JNum (of_nat (length s)))
      | Some (JObj kvs) \<Rightarrow> map_of kvs (ascii ''length'')
      | _ \<Rightarrow> None)"

text \<open>
  The text a template literal or \<open>+=\<close> on a string gives a value. An array joins its
  elements with commas, \<open>null\<close> elements printing as nothing.
\<close>

fun intersperse :: "jsstring \<Rightarrow> jsstring list \<Rightarrow> jsstring" where
  "intersperse sep [] = []"
| "intersperse sep [x] = x"
| "intersperse sep (x # y # ys) = x @ sep @ intersperse sep (y # ys)"

fun ToString :: "js_runtime \<Rightarrow> json \<Rightarrow> jsstring" where
  "ToString rt JNull = ascii ''null''"
| "ToString rt (JBool b) = (if b then ascii ''true'' else ascii ''false'')"
| "ToString rt (JNum n) = num_str rt n"
| "ToString rt (JStr s) = s"
| "ToString rt (JArr xs) =
     intersperse (ascii '','') (map (\<lambda>x. if x = JNull then [] else ToString rt x) xs)"
| "ToString rt (JObj kvs) = ascii ''[object Object]''"

text \<open>\<open>${v}\<close> for a value that may be \<open>undefined\<close>.\<close>

definition template :: "js_runtime \<Rightarrow> json option \<Rightarrow> jsstring" where
  "template rt v = (case v of None \<Rightarrow> ascii ''undefined'' | Some x \<Rightarrow> ToString rt x)"

text \<open>
  \<open>v > 0\<close>: \<open>undefined\<close> converts to NaN and \<open>null\<close> to 0, a boolean to 0 or 1; a
  string, and an array or object through its text, converts as the engine reads it.
\<close>

definition gt_zero :: "js_runtime \<Rightarrow> json option \<Rightarrow> bool" where
  "gt_zero rt v =
     (case v of
        None \<Rightarrow> False
      | Some JNull \<Rightarrow> False
      | Some (JBool b) \<Rightarrow> b
      | Some (JNum n) \<Rightarrow> n > 0
      | Some (JStr s) \<Rightarrow> str_gt0 rt s
      | Some (JArr xs) \<Rightarrow> str_gt0 rt (ToString rt (JArr xs))
      | Some (JObj kvs) \<Rightarrow> str_gt0 rt (ToString rt (JObj kvs)))"

text \<open>
  Object spread \<open>{...a, ...b}\<close>: a key of \<open>b\<close> that \<open>a\<close> has keeps its place and takes
  the value of \<open>b\<close>; a new key is appended. An object lists its integer-like keys
  first; the list does not, so it may differ from the object in the order of its
  properties, and in nothing else.
\<close>

fun upd :: "jsstring \<Rightarrow> 'v \<Rightarrow> (jsstring \<times> 'v) list \<Rightarrow> (jsstring \<times> 'v) list" where
  "upd k v [] = [(k, v)]"
| "upd k v ((k', v') # kvs) = (if k = k' then (k, v) # kvs else (k', v') # upd k v kvs)"

definition spread :: "(jsstring \<times> 'v) list \<Rightarrow> (jsstring \<times> 'v) list \<Rightarrow> (jsstring \<times> 'v) list" where
  "spread a b = foldl (\<lambda>acc (k, v). upd k v acc) a b"

section \<open>Data model (types.ts)\<close>

datatype connection_mode = Standard | Custom

datatype feature = FChat | FModels

text \<open>
  \<open>ApiConfig\<close>. The optional fields of the interface are options. \<open>features\<close> is
  declared mandatory, but \<open>fetchModels\<close> tests its presence, so it is an option too.
  The fields \<open>id\<close> and \<open>name\<close> are \<open>api_id\<close> and \<open>api_name\<close> here.
\<close>

record ApiConfig =
  api_id :: jsstring
  api_name :: jsstring
  baseUrl :: jsstring
  apiKey :: jsstring
  connectionMode :: connection_mode
  features :: "feature list option"
  modelsEndpoint :: "jsstring option"
  chatEndpoint :: "jsstring option"
  customHeaders :: "(jsstring \<times> jsstring) list option"
  customParams :: "(jsstring \<times> json) list option"
  skipAutoCompletion :: "bool option"
  autoV1 :: "bool option"
  createdAt :: nat

datatype status = Success | Error | Pending | Supported | Unsupported

text \<open>
  \<open>TestResult\<close> and \<open>ToolTestResult\<close>. The dashboard handles both as one union type,
  and so does the model: a \<open>ToolTestResult\<close> is a \<open>TestResult\<close> with no
  \<open>statusCode\<close>, and \<open>status\<close> ranges over the literals of both interfaces.
\<close>

record TestResult =
  modelId :: jsstring
  latency :: int
  status :: status
  message :: "jsstring option"
  timestamp :: nat
  statusCode :: "nat option"
  requestBody :: "json option"
  responseBody :: "json option"

type_synonym ToolTestResult = TestResult

record SendMessageResult =
  actualBody :: jsstring
  responseBody :: jsstring

datatype log_type = LChat | LModels | LTest | LToolCheck

text \<open>\<open>RequestLog\<close>; its fields \<open>id\<close>, \<open>type\<close> and \<open>method\<close> are \<open>log_id\<close>, \<open>log_type\<close>
  and \<open>log_method\<close> here.\<close>

record RequestLog =
  log_id :: jsstring
  timestamp :: nat
  log_type :: log_type
  apiId :: jsstring
  apiName :: jsstring
  model :: "json option"
  log_method :: jsstring
  url :: jsstring
  status :: nat
  latency :: int
  requestBody :: "json option"
  responseBody :: "json option"
  error :: "jsstring option"

section \<open>The platform around one call\<close>

text \<open>
  A \<open>Response\<close>: its status line and its body. The body is \<open>None\<close> when
  \<open>response.body\<close> is \<open>null\<close>; otherwise it is the decoded chunks its reader yields
  and, when reading fails before the end, the error the failing read throws.
\<close>

record Response =
  status :: nat
  statusText :: jsstring
  body :: "(jsstring list \<times> js_error option) option"

definition ok :: "Response \<Rightarrow> bool" where
  "ok r \<longleftrightarrow> 200 \<le> Response.status r \<and> Response.status r \<le> 299"

text \<open>\<open>await response.text()\<close>\<close>

definition text_of :: "Response \<Rightarrow> js_error + jsstring" where
  "text_of r =
     (case body r of
        None \<Rightarrow> Inr []
      | Some (chunks, None) \<Rightarrow> Inr (concat chunks)
      | Some (chunks, Some e) \<Rightarrow> Inl e)"

text \<open>\<open>await response.json()\<close>: the body text, parsed.\<close>

definition json_of :: "js_runtime \<Rightarrow> Response \<Rightarrow> js_error + json" where
  "json_of rt r = (case text_of r of Inl e \<Rightarrow> Inl e | Inr t \<Rightarrow> JSON_parse rt t)"

datatype fetch_result = Rejected js_error | Resolved Response

text \<open>
  What one call of the service observes of its surroundings: the identifier
  \<open>crypto.randomUUID()\<close> returns, the readings of \<open>Date.now()\<close>, how \<open>fetch\<close> ends
  (a timer that aborts the request makes it reject with an error named \<open>AbortError\<close>),
  and \<open>Math.round(performance.now() - start)\<close> at the three places that read the
  clock: when the response arrives, when its body has been consumed, and in the
  \<open>catch\<close> block.
\<close>

record env =
  randomUUID :: jsstring
  Date_now_log :: nat
  Date_now_result :: nat
  fetch_outcome :: fetch_result
  elapsed_response :: int
  elapsed_consumed :: int
  elapsed_catch :: int

text \<open>The request handed to \<open>fetch\<close>; \<open>timeout_ms\<close> is the delay of the timer that
  aborts it, when there is one.\<close>

record Request =
  req_url :: jsstring
  req_method :: jsstring
  req_headers :: "(jsstring \<times> jsstring) list"
  req_body :: "json option"
  timeout_ms :: "int option"

text \<open>
  What a call leaves behind: its result (\<open>Inl\<close> when it throws), the records it handed
  to \<open>saveLog\<close> and the requests it handed to \<open>fetch\<close>, in order.
\<close>

record 'a outcome =
  result :: "js_error + 'a"
  saved :: "RequestLog list"
  fetched :: "Request list"

section \<open>Audit log (dbService.ts)\<close>

text \<open>
  The object store \<open>logs\<close> has key path \<open>id\<close>, and \<open>store.add\<close> refuses a record
  whose key the store already holds. \<open>saveLog\<close> swallows that failure. The store is
  the list of its records in the order they were added.
\<close>

definition saveLog :: "RequestLog \<Rightarrow> RequestLog list \<Rightarrow> RequestLog list" where
  "saveLog entry store =
     (if log_id entry \<in> set (map log_id store) then store else store @ [entry])"

text \<open>
  The store after a call of the service that handed \<open>logs\<close> to \<open>saveLog\<close>.
  \<open>saveLog\<close> is not awaited and reaches \<open>store.add\<close> only after the database has
  been opened, when the synchronous code of its caller has run to its end; \<open>add\<close> then
  copies the log object as it is at that moment. Within one call of the service the
  calls of \<open>saveLog\<close> and the assignments to the log object between them are
  synchronous. So every record of \<open>logs\<close> reaches the store as the last of them reads.
\<close>

definition save_all :: "RequestLog list \<Rightarrow> RequestLog list \<Rightarrow> RequestLog list" where
  "save_all logs store = foldl (\<lambda>st l. saveLog (last logs) st) store logs"

text \<open>
  \<open>getLogs(limit, offset)\<close> walks the \<open>timestamp\<close> index backwards (latest
  first; records of one timestamp by descending key, keys comparing code unit by code
  unit), skips \<open>offset\<close> records, and collects until it holds \<open>limit\<close> records; the
  test comes after the push, so a visited record is always collected.
\<close>

fun key_le :: "jsstring \<Rightarrow> jsstring \<Rightarrow> bool" where
  "key_le [] t = True"
| "key_le (c # s) [] = False"
| "key_le (c # s) (d # t) = (c < d \<or> (c = d \<and> key_le s t))"

definition index_le :: "RequestLog \<Rightarrow> RequestLog \<Rightarrow> bool" where
  "index_le x y \<longleftrightarrow>
     RequestLog.timestamp x < RequestLog.timestamp y
     \<or> (RequestLog.timestamp x = RequestLog.timestamp y \<and> key_le (log_id x) (log_id y))"

fun insert_desc :: "RequestLog \<Rightarrow> RequestLog list \<Rightarrow> RequestLog list" where
  "insert_desc l [] = [l]"
| "insert_desc l (x # xs) = (if index_le x l then l # x # xs else x # insert_desc l xs)"

definition latest_first :: "RequestLog list \<Rightarrow> RequestLog list" where
  "latest_first store = foldl (\<lambda>acc l. insert_desc l acc) [] store"

fun collect :: "nat \<Rightarrow> RequestLog list \<Rightarrow> RequestLog list \<Rightarrow> RequestLog list" where
  "collect limit results [] = results"
| "collect limit results (x # xs) =
     (let results' = results @ [x]
      in if length results' < limit then collect limit results' xs else results')"

definition getLogs :: "nat \<Rightarrow> nat \<Rightarrow> RequestLog list \<Rightarrow> RequestLog list" where
  "getLogs limit offset store = collect limit [] (drop offset (latest_first store))"

definition clearLogs :: "RequestLog list \<Rightarrow> RequestLog list" where
  "clearLogs store = []"

section \<open>Endpoint resolver (llmService.ts, getEndpoint)\<close>

datatype endpoint_type = Models | Chat

text \<open>\<open>e || ''\<close> on an optional string: \<open>undefined\<close> and \<open>''\<close> both give \<open>''\<close>.\<close>

definition or_empty :: "jsstring option \<Rightarrow> jsstring" where
  "or_empty e = (case e of None \<Rightarrow> [] | Some s \<Rightarrow> if s = [] then [] else s)"

text \<open>\<open>type === 'models' ? 'models' : 'chat/completions'\<close>\<close>

definition suffix_of :: "endpoint_type \<Rightarrow> jsstring" where
  "suffix_of type = (if type = Models then ascii ''models'' else ascii ''chat/completions'')"

text \<open>
  The first two statements of standard mode: \<open>trim()\<close>, then one trailing slash is
  cut off.
\<close>

definition trimmed_base :: "jsstring \<Rightarrow> jsstring" where
  "trimmed_base b =
     (let base0 = trim b
      in if endsWith base0 (ascii ''/'') then slice_0_neg1 base0 else base0)"

definition getEndpoint :: "ApiConfig \<Rightarrow> endpoint_type \<Rightarrow> jsstring" where
  "getEndpoint api type =
     (if connectionMode api = Custom then
        (case type of Models \<Rightarrow> or_empty (modelsEndpoint api)
                    | Chat \<Rightarrow> or_empty (chatEndpoint api))
      else
        let base = trimmed_base (baseUrl api)
        in if skipAutoCompletion api = Some True then
             base @ ascii ''/'' @ (if type = Models then ascii ''models''
                                   else ascii ''chat/completions'')
           else
             let auto = (case autoV1 api of None \<Rightarrow> True | Some b \<Rightarrow> b)
             in if \<not> auto then base
                else if endsWith base (ascii ''/v1'') then base @ ascii ''/'' @ suffix_of type
                else base @ ascii ''/v1/'' @ suffix_of type)"

section \<open>Probe executor (llmService.ts)\<close>

subsection \<open>Messages of the source\<close>

definition msg_no_models_endpoint :: jsstring where
  "msg_no_models_endpoint =
     [26410, 37197, 32622, 27169, 22411, 21015, 34920, 25509, 21475, 22320, 22336]"

definition msg_bad_format :: jsstring where
  "msg_bad_format =
     [36820, 22238, 25968, 25454, 26684, 24335, 19981, 31526, 21512] @ ascii '' OpenAI ''
     @ [26631, 20934] @ ascii '' ('' @ [32570, 23569] @ ascii '' array '' @ [25110]
     @ ascii '' data '' @ [23383, 27573] @ ascii '')''"

definition msg_timeout_10 :: jsstring where
  "msg_timeout_10 =
     [35831, 27714, 36229, 26102] @ ascii '' (10'' @ [31186] @ ascii '')''
     @ [65292, 35831, 26816, 26597, 32593, 32476, 36830, 25509, 25110, 20195, 29702,
        35774, 32622]"

definition msg_no_chat_endpoint :: jsstring where
  "msg_no_chat_endpoint = [26410, 37197, 32622, 23545, 35805, 25509, 21475]"

text \<open>The template \<open>(request timed out) (${timeoutSeconds}s)\<close>.\<close>

definition msg_timeout :: "int \<Rightarrow> jsstring" where
  "msg_timeout timeoutSeconds =
     [35831, 27714, 36229, 26102] @ ascii '' ('' @ num_to_str timeoutSeconds @ ascii ''s)''"

definition msg_network_error :: jsstring where
  "msg_network_error = [32593, 32476, 38169, 35823]"

definition msg_no_body :: jsstring where
  "msg_no_body = [27809, 26377, 21709, 24212, 20869, 23481]"

subsection \<open>Shared helpers\<close>

definition createLogEntry ::
  "env \<Rightarrow> ApiConfig \<Rightarrow> log_type \<Rightarrow> jsstring \<Rightarrow> jsstring \<Rightarrow> json option \<Rightarrow> json option
     \<Rightarrow> RequestLog" where
  "createLogEntry ev api ty u m mdl rb =
     \<lparr>log_id = randomUUID ev,
      RequestLog.timestamp = Date_now_log ev,
      log_type = ty,
      apiId = api_id api,
      apiName = api_name api,
      model = mdl,
      log_method = m,
      url = u,
      RequestLog.status = 0,
      RequestLog.latency = 0,
      RequestLog.requestBody = rb,
      RequestLog.responseBody = None,
      error = None\<rparr>"

text \<open>The headers of every request: bearer token, content type, then the custom headers.\<close>

definition headers_of :: "ApiConfig \<Rightarrow> (jsstring \<times> jsstring) list" where
  "headers_of api =
     spread [(ascii ''Authorization'', ascii ''Bearer '' @ apiKey api),
             (ascii ''Content-Type'', ascii ''application/json'')]
            (case customHeaders api of None \<Rightarrow> [] | Some h \<Rightarrow> h)"

text \<open>\<open>...(api.customParams || {})\<close>\<close>

definition params_of :: "ApiConfig \<Rightarrow> (jsstring \<times> json) list" where
  "params_of api = (case customParams api of None \<Rightarrow> [] | Some ps \<Rightarrow> ps)"

text \<open>The \<open>catch\<close> blocks store the clock and the error's message in the log entry.\<close>

definition log_failure :: "env \<Rightarrow> js_error \<Rightarrow> RequestLog \<Rightarrow> RequestLog" where
  "log_failure ev err lg =
     lg\<lparr>RequestLog.latency := elapsed_catch ev, error := Some (err_message err)\<rparr>"

subsection \<open>fetchModels\<close>

text \<open>The message of the error thrown for a response that is not 2xx.\<close>

definition fetchModels_errorMsg :: "js_runtime \<Rightarrow> Response \<Rightarrow> jsstring \<Rightarrow> jsstring" where
  "fetchModels_errorMsg rt response errorText =
     (let errorMsg = ascii ''HTTP '' @ num_to_str (int (Response.status response))
                     @ ascii '' '' @ statusText response;
          truncated = errorMsg @ ascii '': '' @ slice_0 200 errorText
      in case JSON_parse rt errorText of
           Inl err \<Rightarrow> truncated
         | Inr JNull \<Rightarrow> truncated
         | Inr errorJson \<Rightarrow>
             (let er = member errorJson (ascii ''error'')
              in if truthy er \<and> truthy (opt_member er (ascii ''message''))
                 then errorMsg @ ascii '': '' @ template rt (opt_member er (ascii ''message''))
                 else truncated))"

text \<open>
  The \<open>try\<close> block: its result or the error it throws, the log entry as the block left
  it, and the records it handed to \<open>saveLog\<close>.
\<close>

definition fetchModels_try ::
  "js_runtime \<Rightarrow> env \<Rightarrow> RequestLog \<Rightarrow> (js_error + json list) \<times> RequestLog \<times> RequestLog list" where
  "fetchModels_try rt ev lg =
     (case fetch_outcome ev of
        Rejected err \<Rightarrow> (Inl err, lg, [])
      | Resolved response \<Rightarrow>
          (let lg1 = lg\<lparr>RequestLog.latency := elapsed_response ev,
                         RequestLog.status := Response.status response\<rparr>
           in if ok response then
                (case json_of rt response of
                   Inl err \<Rightarrow> (Inl err, lg1, [])
                 | Inr data \<Rightarrow>
                     (let lg2 = lg1\<lparr>RequestLog.responseBody := Some data\<rparr>
                      in case data of
                           JArr xs \<Rightarrow> (Inr xs, lg2, [lg2])
                         | JNull \<Rightarrow> (Inl (TypeError_null rt (ascii ''data'')), lg2, [lg2])
                         | _ \<Rightarrow>
                             (case member data (ascii ''data'') of
                                Some (JArr ys) \<Rightarrow> (Inr ys, lg2, [lg2])
                              | _ \<Rightarrow> (Inl (new_Error msg_bad_format), lg2, [lg2]))))
              else
                (case text_of response of
                   Inl err \<Rightarrow> (Inl err, lg1, [])
                 | Inr errorText \<Rightarrow>
                     (let lg2 = lg1\<lparr>RequestLog.responseBody := Some (JStr errorText),
                                     error := Some errorText\<rparr>
                      in (Inl (new_Error (fetchModels_errorMsg rt response errorText)),
                          lg2, [lg2])))))"

text \<open>What the \<open>catch\<close> block throws for the error it caught.\<close>

definition fetchModels_rethrow :: "js_error \<Rightarrow> js_error" where
  "fetchModels_rethrow err =
     (if err_name err = ascii ''AbortError'' then new_Error msg_timeout_10 else err)"

definition fetchModels :: "js_runtime \<Rightarrow> env \<Rightarrow> ApiConfig \<Rightarrow> json list outcome" where
  "fetchModels rt ev api =
     (if (case features api of None \<Rightarrow> False | Some fs \<Rightarrow> FModels \<notin> set fs) then
        \<lparr>result = Inr [], saved = [], fetched = []\<rparr>
      else
        let u = getEndpoint api Models
        in if u = [] then
             \<lparr>result = Inl (new_Error msg_no_models_endpoint), saved = [], fetched = []\<rparr>
           else
             let lg = createLogEntry ev api LModels u (ascii ''GET'') None None;
                 req = \<lparr>req_url = u, req_method = ascii ''GET'', req_headers = headers_of api,
                        req_body = None, timeout_ms = Some 10000\<rparr>
             in case fetchModels_try rt ev lg of
                  (Inr models, lg', logs) \<Rightarrow>
                    \<lparr>result = Inr models, saved = logs, fetched = [req]\<rparr>
                | (Inl err, lg', logs) \<Rightarrow>
                    \<lparr>result = Inl (fetchModels_rethrow err),
                     saved = logs @ [log_failure ev err lg'],
                     fetched = [req]\<rparr>)"

subsection \<open>testModelLatency\<close>

text \<open>The reader loop of the streaming probe: every chunk is appended; a failing read throws.\<close>

definition drain :: "Response \<Rightarrow> js_error + jsstring" where
  "drain response =
     (case body response of
        None \<Rightarrow> Inr []
      | Some (chunks, None) \<Rightarrow> Inr (foldl (\<lambda>accumulated v. accumulated @ v) [] chunks)
      | Some (chunks, Some err) \<Rightarrow> Inl err)"

definition testModelLatency_shortMsg :: "js_runtime \<Rightarrow> Response \<Rightarrow> jsstring \<Rightarrow> jsstring" where
  "testModelLatency_shortMsg rt response errorText =
     (let shortMsg = ascii ''HTTP '' @ num_to_str (int (Response.status response));
          plain = shortMsg @ ascii '' '' @ statusText response
      in case JSON_parse rt errorText of
           Inl err \<Rightarrow> plain
         | Inr JNull \<Rightarrow> plain
         | Inr js \<Rightarrow>
             (let em = opt_member (member js (ascii ''error'')) (ascii ''message'');
                  jm = member js (ascii ''message'')
              in if truthy em then shortMsg @ ascii '': '' @ template rt em
                 else if truthy jm then shortMsg @ ascii '': '' @ template rt jm
                 else plain))"

definition latency_requestBody :: "ApiConfig \<Rightarrow> jsstring \<Rightarrow> bool \<Rightarrow> json" where
  "latency_requestBody api mid stream =
     JObj (spread
       [(ascii ''model'', JStr mid),
        (ascii ''messages'',
           JArr [JObj [(ascii ''role'', JStr (ascii ''user'')),
                       (ascii ''content'', JStr (ascii ''Hi''))]]),
        (ascii ''max_tokens'', JNum 1),
        (ascii ''stream'', JBool stream)]
       (params_of api))"

definition testModelLatency_try ::
  "js_runtime \<Rightarrow> env \<Rightarrow> jsstring \<Rightarrow> bool \<Rightarrow> json \<Rightarrow> RequestLog
     \<Rightarrow> (js_error + TestResult) \<times> RequestLog \<times> RequestLog list" where
  "testModelLatency_try rt ev mid stream rb lg =
     (case fetch_outcome ev of
        Rejected err \<Rightarrow> (Inl err, lg, [])
      | Resolved response \<Rightarrow>
          (let lg1 = lg\<lparr>RequestLog.status := Response.status response,
                         RequestLog.latency := elapsed_response ev\<rparr>
           in if ok response then
                (case (if stream then
                         (case drain response of
                            Inl err \<Rightarrow> Inl err
                          | Inr accumulated \<Rightarrow>
                              Inr (JObj [(ascii ''stream_content'',
                                          JStr (slice_0 1000 accumulated
                                                @ (if length accumulated > 1000
                                                   then ascii ''...'' else [])))]))
                       else json_of rt response) of
                   Inl err \<Rightarrow> (Inl err, lg1, [])
                 | Inr data \<Rightarrow>
                     (let lg2 = lg1\<lparr>RequestLog.responseBody := Some data\<rparr>
                      in (Inr \<lparr>modelId = mid,
                               TestResult.latency = RequestLog.latency lg2,
                               TestResult.status = Success,
                               message = None,
                               TestResult.timestamp = Date_now_result ev,
                               statusCode = Some (Response.status response),
                               TestResult.requestBody = Some rb,
                               TestResult.responseBody = Some data\<rparr>,
                          lg2, [lg2])))
              else
                (case text_of response of
                   Inl err \<Rightarrow> (Inl err, lg1, [])
                 | Inr errorText \<Rightarrow>
                     (let lg2 = lg1\<lparr>RequestLog.responseBody := Some (JStr errorText),
                                     error := Some errorText\<rparr>
                      in (Inr \<lparr>modelId = mid,
                               TestResult.latency = 0,
                               TestResult.status = Error,
                               message = Some (testModelLatency_shortMsg rt response errorText),
                               TestResult.timestamp = Date_now_result ev,
                               statusCode = Some (Response.status response),
                               TestResult.requestBody = Some rb,
                               TestResult.responseBody = Some (JStr errorText)\<rparr>,
                          lg2, [lg2])))))"

definition testModelLatency ::
  "js_runtime \<Rightarrow> env \<Rightarrow> ApiConfig \<Rightarrow> jsstring \<Rightarrow> int \<Rightarrow> bool \<Rightarrow> TestResult outcome" where
  "testModelLatency rt ev api mid timeoutSeconds stream =
     (let u = getEndpoint api Chat
      in if u = [] then
           \<lparr>result = Inr \<lparr>modelId = mid,
                           TestResult.latency = 0,
                           TestResult.status = Error,
                           message = Some msg_no_chat_endpoint,
                           TestResult.timestamp = Date_now_result ev,
                           statusCode = None,
                           TestResult.requestBody = None,
                           TestResult.responseBody = None\<rparr>,
            saved = [], fetched = []\<rparr>
         else
           let rb = latency_requestBody api mid stream;
               lg = createLogEntry ev api LTest u (ascii ''POST'') (Some (JStr mid)) (Some rb);
               req = \<lparr>req_url = u, req_method = ascii ''POST'', req_headers = headers_of api,
                      req_body = Some rb, timeout_ms = Some (timeoutSeconds * 1000)\<rparr>
           in case testModelLatency_try rt ev mid stream rb lg of
                (Inr r, lg', logs) \<Rightarrow> \<lparr>result = Inr r, saved = logs, fetched = [req]\<rparr>
              | (Inl err, lg', logs) \<Rightarrow>
                  \<lparr>result = Inr \<lparr>modelId = mid,
                                  TestResult.latency = 0,
                                  TestResult.status = Error,
                                  message = Some (if err_name err = ascii ''AbortError''
                                                  then msg_timeout timeoutSeconds
                                                  else if err_message err \<noteq> []
                                                       then err_message err
                                                       else msg_network_error),
                                  TestResult.timestamp = Date_now_result ev,
                                  statusCode = Some 0,
                                  TestResult.requestBody = Some rb,
                                  TestResult.responseBody = Some (JStr (err_message err))\<rparr>,
                   saved = logs @ [log_failure ev err lg'],
                   fetched = [req]\<rparr>)"

subsection \<open>testModelToolSupport\<close>

definition tool_requestBody :: "ApiConfig \<Rightarrow> jsstring \<Rightarrow> json" where
  "tool_requestBody api mid =
     JObj (spread
       [(ascii ''model'', JStr mid),
        (ascii ''messages'',
           JArr [JObj [(ascii ''role'', JStr (ascii ''user'')),
                       (ascii ''content'', JStr (ascii ''What is the weather in Tokyo?''))]]),
        (ascii ''tools'',
           JArr [JObj [(ascii ''type'', JStr (ascii ''function'')),
                       (ascii ''function'',
                          JObj [(ascii ''name'', JStr (ascii ''get_weather'')),
                                (ascii ''description'', JStr (ascii ''Get the current weather'')),
                                (ascii ''parameters'',
                                   JObj [(ascii ''type'', JStr (ascii ''object'')),
                                         (ascii ''properties'',
                                            JObj [(ascii ''location'',
                                                   JObj [(ascii ''type'',
                                                          JStr (ascii ''string''))])]),
                                         (ascii ''required'',
                                            JArr [JStr (ascii ''location'')])])])]]),
        (ascii ''tool_choice'', JStr (ascii ''auto'')),
        (ascii ''max_tokens'', JNum 50)]
       (params_of api))"

text \<open>
  \<open>choice?.message\<close> for \<open>choice = data.choices?.[0]\<close>, and
  \<open>choice?.message?.tool_calls?.length > 0 || choice?.message?.function_call\<close>, on a
  \<open>data\<close> that is not \<open>null\<close>.
\<close>

definition choice_message :: "json \<Rightarrow> json option" where
  "choice_message data =
     (let choice = opt_index0 (member data (ascii ''choices''))
      in opt_member choice (ascii ''message''))"

definition hasToolCalls :: "js_runtime \<Rightarrow> json \<Rightarrow> bool" where
  "hasToolCalls rt data =
     (gt_zero rt (opt_length (opt_member (choice_message data) (ascii ''tool_calls'')))
      \<or> truthy (opt_member (choice_message data) (ascii ''function_call'')))"

definition msg_tool_triggered :: jsstring where
  "msg_tool_triggered = ascii ''Successfully triggered tool call''"

definition msg_tool_text :: jsstring where
  "msg_tool_text = ascii ''Model returned text instead of tool call''"

definition testModelToolSupport_try ::
  "js_runtime \<Rightarrow> env \<Rightarrow> jsstring \<Rightarrow> json \<Rightarrow> RequestLog
     \<Rightarrow> (js_error + ToolTestResult) \<times> RequestLog \<times> RequestLog list" where
  "testModelToolSupport_try rt ev mid rb lg =
     (case fetch_outcome ev of
        Rejected err \<Rightarrow> (Inl err, lg, [])
      | Resolved response \<Rightarrow>
          (let lat = elapsed_response ev;
               lg1 = lg\<lparr>RequestLog.status := Response.status response,
                         RequestLog.latency := lat\<rparr>
           in if ok response then
                (case json_of rt response of
                   Inl err \<Rightarrow> (Inl err, lg1, [])
                 | Inr data \<Rightarrow>
                     (let lg2 = lg1\<lparr>RequestLog.responseBody := Some data\<rparr>
                      in if data = JNull then
                           (Inl (TypeError_null rt (ascii ''choices'')), lg2, [lg2])
                         else
                           (Inr \<lparr>modelId = mid,
                                 TestResult.latency = lat,
                                 TestResult.status =
                                   (if hasToolCalls rt data then Supported else Unsupported),
                                 message =
                                   Some (if hasToolCalls rt data then msg_tool_triggered
                                         else msg_tool_text),
                                 TestResult.timestamp = Date_now_result ev,
                                 statusCode = None,
                                 TestResult.requestBody = Some rb,
                                 TestResult.responseBody = Some data\<rparr>,
                            lg2, [lg2])))
              else
                (case text_of response of
                   Inl err \<Rightarrow> (Inl err, lg1, [])
                 | Inr errorText \<Rightarrow>
                     (let lg2 = lg1\<lparr>RequestLog.responseBody := Some (JStr errorText),
                                     error := Some errorText\<rparr>
                      in (Inr \<lparr>modelId = mid,
                               TestResult.latency = lat,
                               TestResult.status = Error,
                               message = Some (ascii ''HTTP ''
                                               @ num_to_str (int (Response.status response))),
                               TestResult.timestamp = Date_now_result ev,
                               statusCode = None,
                               TestResult.requestBody = Some rb,
                               TestResult.responseBody = Some (JStr errorText)\<rparr>,
                          lg2, [lg2])))))"

definition testModelToolSupport ::
  "js_runtime \<Rightarrow> env \<Rightarrow> ApiConfig \<Rightarrow> jsstring \<Rightarrow> int \<Rightarrow> ToolTestResult outcome" where
  "testModelToolSupport rt ev api mid timeoutSeconds =
     (let u = getEndpoint api Chat
      in if u = [] then
           \<lparr>result = Inr \<lparr>modelId = mid,
                           TestResult.latency = 0,
                           TestResult.status = Error,
                           message = Some msg_no_chat_endpoint,
                           TestResult.timestamp = Date_now_result ev,
                           statusCode = None,
                           TestResult.requestBody = Some (JObj []),
                           TestResult.responseBody = Some (JObj [])\<rparr>,
            saved = [], fetched = []\<rparr>
         else
           let rb = tool_requestBody api mid;
               lg = createLogEntry ev api LToolCheck u (ascii ''POST'') (Some (JStr mid))
                      (Some rb);
               req = \<lparr>req_url = u, req_method = ascii ''POST'', req_headers = headers_of api,
                      req_body = Some rb, timeout_ms = Some (timeoutSeconds * 1000)\<rparr>
           in case testModelToolSupport_try rt ev mid rb lg of
                (Inr r, lg', logs) \<Rightarrow> \<lparr>result = Inr r, saved = logs, fetched = [req]\<rparr>
              | (Inl err, lg', logs) \<Rightarrow>
                  \<lparr>result = Inr \<lparr>modelId = mid,
                                  TestResult.latency = 0,
                                  TestResult.status = Error,
                                  message = Some (err_message err),
                                  TestResult.timestamp = Date_now_result ev,
                                  statusCode = None,
                                  TestResult.requestBody = Some rb,
                                  TestResult.responseBody = Some (JStr (err_message err))\<rparr>,
                   saved = logs @ [log_failure ev err lg'],
                   fetched = [req]\<rparr>)"

subsection \<open>sendChatMessage\<close>

text \<open>\<open>s.split('\n')\<close>\<close>

fun split_lines :: "jsstring \<Rightarrow> jsstring list" where
  "split_lines [] = [[]]"
| "split_lines (c # cs) =
     (if c = 10 then [] # split_lines cs
      else (case split_lines cs of [] \<Rightarrow> [[c]] | l # ls \<Rightarrow> (c # l) # ls))"

text \<open>
  One line of a chunk: the content it makes the loop deliver, if any. The line counts when
  it starts with \<open>data: \<close> and is not the end marker; \<open>replace\<close> then removes that
  prefix, six code units long. A line that does not parse, or parses to \<open>null\<close>, throws
  inside the inner \<open>try\<close> and is skipped.
\<close>

definition line_content :: "js_runtime \<Rightarrow> jsstring \<Rightarrow> json option" where
  "line_content rt line =
     (if startsWith line (ascii ''data: '') \<and> line \<noteq> ascii ''data: [DONE]'' then
        (case JSON_parse rt (drop 6 line) of
           Inl err \<Rightarrow> None
         | Inr JNull \<Rightarrow> None
         | Inr js \<Rightarrow>
             (let content = opt_member (opt_member (opt_index0 (member js (ascii ''choices'')))
                                          (ascii ''delta''))
                              (ascii ''content'')
              in if truthy content then content else None))
      else None)"

text \<open>
  The state of the reader loop: the raw text so far, the generated text so far, and the
  values passed to \<open>onChunk\<close> so far.
\<close>

type_synonym stream_state = "jsstring \<times> jsstring \<times> json list"

definition read_chunk :: "js_runtime \<Rightarrow> stream_state \<Rightarrow> jsstring \<Rightarrow> stream_state" where
  "read_chunk rt st chunkValue =
     (case st of (rawStream, fullText, delivered) \<Rightarrow>
        foldl (\<lambda>(raw, ft, dl) line.
                 case line_content rt line of
                   None \<Rightarrow> (raw, ft, dl)
                 | Some content \<Rightarrow> (raw, ft @ ToString rt content, dl @ [content]))
              (rawStream @ chunkValue, fullText, delivered)
              (split_lines chunkValue))"

definition read_stream :: "js_runtime \<Rightarrow> jsstring list \<Rightarrow> stream_state" where
  "read_stream rt chunks = foldl (read_chunk rt) ([], [], []) chunks"

definition chat_errorDetail :: "js_runtime \<Rightarrow> jsstring \<Rightarrow> jsstring" where
  "chat_errorDetail rt txt =
     (case JSON_parse rt txt of
        Inl err \<Rightarrow> txt
      | Inr JNull \<Rightarrow> txt
      | Inr js \<Rightarrow>
          (case member js (ascii ''error'') of
             None \<Rightarrow> txt
           | Some er \<Rightarrow> if truthy (Some er) then JSON_stringify rt er else txt))"

text \<open>
  The \<open>try\<close> block of \<open>sendChatMessage\<close>; the last component is what \<open>onChunk\<close> was
  called with.
\<close>

definition sendChatMessage_try ::
  "js_runtime \<Rightarrow> env \<Rightarrow> (jsstring \<times> json) list \<Rightarrow> RequestLog
     \<Rightarrow> (js_error + SendMessageResult) \<times> RequestLog \<times> RequestLog list \<times> json list" where
  "sendChatMessage_try rt ev finalBody lg =
     (case fetch_outcome ev of
        Rejected err \<Rightarrow> (Inl err, lg, [], [])
      | Resolved response \<Rightarrow>
          (let lg1 = lg\<lparr>RequestLog.status := Response.status response\<rparr>
           in if \<not> ok response then
                (case text_of response of
                   Inl err \<Rightarrow> (Inl err, lg1, [], [])
                 | Inr txt \<Rightarrow>
                     (let lg2 = lg1\<lparr>RequestLog.responseBody := Some (JStr txt),
                                     error := Some txt,
                                     RequestLog.latency := elapsed_consumed ev\<rparr>
                      in (Inl (new_Error
                                 (ascii ''['' @ num_to_str (int (Response.status response))
                                  @ ascii '' '' @ statusText response @ ascii '']'' @ [10]
                                  @ chat_errorDetail rt txt)),
                          lg2, [lg2], [])))
              else if truthy (map_of finalBody (ascii ''stream'')) then
                (case body response of
                   None \<Rightarrow> (Inl (new_Error msg_no_body), lg1, [], [])
                 | Some (chunks, ending) \<Rightarrow>
                     (case read_stream rt chunks of (rawStream, fullText, delivered) \<Rightarrow>
                        (case ending of
                           Some err \<Rightarrow> (Inl err, lg1, [], delivered)
                         | None \<Rightarrow>
                             (let lg2 = lg1\<lparr>RequestLog.latency := elapsed_consumed ev,
                                             RequestLog.responseBody :=
                                               Some (JObj [(ascii ''stream_length'',
                                                            JNum (of_nat (length rawStream))),
                                                           (ascii ''generated_text'',
                                                            JStr fullText)])\<rparr>
                              in (Inr \<lparr>actualBody = JSON_stringify rt (JObj finalBody),
                                       SendMessageResult.responseBody = rawStream\<rparr>,
                                  lg2, [lg2], delivered)))))
              else
                (case json_of rt response of
                   Inl err \<Rightarrow> (Inl err, lg1, [], [])
                 | Inr data \<Rightarrow>
                     (let lg2 = lg1\<lparr>RequestLog.latency := elapsed_consumed ev,
                                     RequestLog.responseBody := Some data\<rparr>
                      in if data = JNull then
                           (Inl (TypeError_null rt (ascii ''choices'')), lg2, [lg2], [])
                         else
                           (let content =
                                  opt_member (opt_member (opt_index0 (member data (ascii ''choices'')))
                                                (ascii ''message''))
                                    (ascii ''content'')
                            in (Inr \<lparr>actualBody = JSON_stringify rt (JObj finalBody),
                                     SendMessageResult.responseBody = JSON_stringify rt data\<rparr>,
                                lg2, [lg2],
                                [case content of None \<Rightarrow> JStr [] | Some c \<Rightarrow> if truthy content then c else JStr []]))))))"

definition sendChatMessage ::
  "js_runtime \<Rightarrow> env \<Rightarrow> ApiConfig \<Rightarrow> (jsstring \<times> json) list
     \<Rightarrow> SendMessageResult outcome \<times> json list" where
  "sendChatMessage rt ev api rb =
     (let u = getEndpoint api Chat
      in if u = [] then
           (\<lparr>result = Inl (new_Error (ascii ''Chat Endpoint not configured'')),
             saved = [], fetched = []\<rparr>, [])
         else
           let finalBody = spread rb (params_of api);
               lg = createLogEntry ev api LChat u (ascii ''POST'') (map_of rb (ascii ''model''))
                      (Some (JObj finalBody));
               req = \<lparr>req_url = u, req_method = ascii ''POST'', req_headers = headers_of api,
                      req_body = Some (JObj finalBody), timeout_ms = None\<rparr>
           in case sendChatMessage_try rt ev finalBody lg of
                (Inr r, lg', logs, delivered) \<Rightarrow>
                  (\<lparr>result = Inr r, saved = logs, fetched = [req]\<rparr>, delivered)
              | (Inl err, lg', logs, delivered) \<Rightarrow>
                  (\<lparr>result = Inl err,
                    saved = logs @ [log_failure ev err
                                      (if RequestLog.status lg' = 0
                                       then lg'\<lparr>RequestLog.status := 0\<rparr> else lg')],
                    fetched = [req]\<rparr>, delivered))"

section \<open>Dashboard: aggregation over rounds and the worker pool (Dashboard.tsx, runTests)\<close>

datatype test_mode = LatencyMode | ToolMode

record GlobalSettings =
  testTimeout :: int
  testConcurrency :: int
  testRounds :: int
  stream :: "bool option"

subsection \<open>Aggregation\<close>

text \<open>
  The fold step a worker runs after each probe, on \<open>modelRuns\<close>, the results of the
  model so far with the new one at the end. Latencies are integers (a rounded clock
  difference, or 0), and so are their sums; the quotient is taken exactly, where the
  source divides doubles: the two round to the same integer for every sum below
  \<open>2^52\<close> milliseconds.
\<close>

definition sumLatency :: "TestResult list \<Rightarrow> int" where
  "sumLatency modelRuns = foldl (\<lambda>sum r. sum + TestResult.latency r) 0 modelRuns"

definition avgLatency :: "TestResult list \<Rightarrow> int" where
  "avgLatency modelRuns =
     Math_round (of_int (sumLatency modelRuns) / of_nat (length modelRuns))"

definition successCount :: "test_mode \<Rightarrow> TestResult list \<Rightarrow> nat" where
  "successCount mode modelRuns =
     foldl (\<lambda>n r.
              let n1 = (if mode = LatencyMode \<and> TestResult.status r = Success then n + 1 else n)
              in if mode = ToolMode \<and> TestResult.status r = Supported then n1 + 1 else n1)
           0 modelRuns"

text \<open>The status that counts as a success in a mode.\<close>

definition counts_as_success :: "test_mode \<Rightarrow> TestResult \<Rightarrow> bool" where
  "counts_as_success mode r \<longleftrightarrow>
     TestResult.status r = (if mode = LatencyMode then Success else Supported)"

definition newStatus :: "test_mode \<Rightarrow> TestResult list \<Rightarrow> status" where
  "newStatus mode modelRuns =
     (let hasSuccess = successCount mode modelRuns > 0;
          s1 = (if hasSuccess then Success else Error);
          s2 = (if mode = ToolMode then (if hasSuccess then Supported else Unsupported) else s1)
      in if mode = ToolMode \<and> successCount mode modelRuns = 0
            \<and> list_ex (\<lambda>r. TestResult.status r = Error) modelRuns
         then Error else s2)"

text \<open>\<open>${result.message}\<close>: a missing message prints as \<open>undefined\<close>.\<close>

definition message_text :: "jsstring option \<Rightarrow> jsstring" where
  "message_text m = (case m of None \<Rightarrow> ascii ''undefined'' | Some t \<Rightarrow> t)"

definition run_message :: "test_mode \<Rightarrow> int \<Rightarrow> TestResult list \<Rightarrow> TestResult \<Rightarrow> jsstring" where
  "run_message mode rounds modelRuns r =
     ascii ''Runs: '' @ num_to_str (int (successCount mode modelRuns)) @ ascii ''/''
     @ num_to_str rounds @ ascii '' OK. Avg: '' @ num_to_str (avgLatency modelRuns)
     @ ascii ''ms. ''
     @ (if rounds > 1 then ascii ''Last: '' @ message_text (message r)
        else message_text (message r))"

text \<open>The entry stored for the model: the new result with three fields replaced.\<close>

definition aggregate :: "test_mode \<Rightarrow> int \<Rightarrow> TestResult list \<Rightarrow> TestResult \<Rightarrow> TestResult" where
  "aggregate mode rounds modelRuns r =
     r\<lparr>TestResult.latency := avgLatency modelRuns,
       TestResult.status := newStatus mode modelRuns,
       message := Some (run_message mode rounds modelRuns r)\<rparr>"

subsection \<open>The worker pool\<close>

text \<open>
  A worker is an \<open>async\<close> function; it gives up control only at its \<open>await\<close>. Between
  two steps of the pool a worker is therefore about to test \<open>queue.length\<close>, or waiting
  for the probe of the task it took, or returned, or has thrown.
\<close>

datatype 'task worker = AtLoopHead | Awaiting 'task | Finished | Threw js_error

text \<open>\<open>Promise.all(workers)\<close> resolves when every worker has returned.\<close>

definition all_finished :: "'task worker list \<Rightarrow> bool" where
  "all_finished ws = list_all (\<lambda>w. w = Finished) ws"

text \<open>
  The state of one run. \<open>d_workers\<close>, \<open>d_calls\<close> (the probes started: worker and
  model) and \<open>d_store\<close> (the audit log store) are not variables of \<open>runTests\<close>; the
  other fields are. The set \<open>testingModelIds\<close>, which only drives a spinner, is left out.
\<close>

record dash_state =
  queue :: "jsstring list"
  sessionResults :: "jsstring \<rightharpoonup> TestResult list"
  completedCount :: nat
  testResults :: "jsstring \<rightharpoonup> TestResult"
  toolTestResults :: "jsstring \<rightharpoonup> TestResult"
  testProgress :: "(nat \<times> nat) option"
  d_workers :: "jsstring worker list"
  d_calls :: "(nat \<times> jsstring) list"
  d_store :: "RequestLog list"

datatype 'a launch = Returned | RangeError | Running 'a

text \<open>
  \<open>runTests\<close> up to \<open>Promise.all\<close>, for an API that is selected and found: with no
  model selected it returns at once; otherwise the queue holds every selected model
  \<open>rounds\<close> times, and \<open>Array(n)\<close> throws a RangeError for a negative \<open>n\<close>.
\<close>

definition runTests_start ::
  "GlobalSettings \<Rightarrow> jsstring list \<Rightarrow> (jsstring \<rightharpoonup> TestResult) \<Rightarrow> (jsstring \<rightharpoonup> TestResult)
     \<Rightarrow> RequestLog list \<Rightarrow> dash_state launch" where
  "runTests_start settings selectedModels results0 toolResults0 store0 =
     (if selectedModels = [] then Returned
      else
        let rounds = (if testRounds settings = 0 then 1 else testRounds settings);
            q = concat (map (\<lambda>m. replicate (nat rounds) m) selectedModels);
            n = min (testConcurrency settings) (int (length q))
        in if n < 0 then RangeError
           else Running \<lparr>queue = q,
                         sessionResults = Map.empty,
                         completedCount = 0,
                         testResults = results0,
                         toolTestResults = toolResults0,
                         testProgress = Some (0, length q),
                         d_workers = replicate (nat n) AtLoopHead,
                         d_calls = [],
                         d_store = store0\<rparr>)"

text \<open>
  \<open>sessionResults\<close> is a plain object, and the model keeps its own properties. A read
  \<open>sessionResults[modelId]\<close> also finds what \<open>Object.prototype\<close> defines: for a
  model id that is one of these names the read gives a function (for \<open>__proto__\<close>: the
  prototype object), which is truthy and has no \<open>push\<close>.
\<close>

definition Object_prototype_keys :: "jsstring list" where
  "Object_prototype_keys =
     map ascii [''constructor'', ''__defineGetter__'', ''__defineSetter__'',
                ''hasOwnProperty'', ''__lookupGetter__'', ''__lookupSetter__'',
                ''isPrototypeOf'', ''propertyIsEnumerable'', ''toString'', ''valueOf'',
                ''__proto__'', ''toLocaleString'']"

definition inherited_key :: "jsstring \<Rightarrow> bool" where
  "inherited_key k \<longleftrightarrow> k \<in> set Object_prototype_keys"

text \<open>
  What a worker does with the result of a probe once the result has been pushed, up to
  the next test of the queue.
\<close>

definition push_result ::
  "test_mode \<Rightarrow> int \<Rightarrow> jsstring \<Rightarrow> TestResult \<Rightarrow> dash_state \<Rightarrow> dash_state" where
  "push_result mode rounds mid r s =
     (let modelRuns = (case sessionResults s mid of None \<Rightarrow> [] | Some rs \<Rightarrow> rs) @ [r];
          agg = aggregate mode rounds modelRuns r;
          cnt = completedCount s + 1
      in s\<lparr>sessionResults := (sessionResults s)(mid \<mapsto> modelRuns),
           testResults :=
             (if mode = LatencyMode then (testResults s)(mid \<mapsto> agg) else testResults s),
           toolTestResults :=
             (if mode = LatencyMode then toolTestResults s
              else (toolTestResults s)(mid \<mapsto> agg)),
           completedCount := cnt,
           testProgress :=
             (case testProgress s of None \<Rightarrow> None
              | Some (cur, tot) \<Rightarrow> Some (cnt, tot))\<rparr>)"

text \<open>
  What a worker does with the result of a probe: for a model id that
  \<open>Object.prototype\<close> defines, the call of \<open>push\<close> throws a TypeError and nothing is
  recorded.
\<close>

definition record_result ::
  "js_runtime \<Rightarrow> test_mode \<Rightarrow> int \<Rightarrow> jsstring \<Rightarrow> TestResult \<Rightarrow> dash_state
     \<Rightarrow> js_error + dash_state" where
  "record_result rt mode rounds mid r s =
     (if inherited_key mid
      then Inl (TypeError_not_function rt (ascii ''sessionResults[modelId].push''))
      else Inr (push_result mode rounds mid r s))"

text \<open>
  One step of the pool: worker \<open>i\<close> runs to its next \<open>await\<close> or to its end. When it
  was waiting for a probe, \<open>ev\<close> is what that probe met. A model id that is the empty
  string fails the test \<open>if (modelId)\<close>: it leaves the queue and nothing else happens.
  A worker that throws rejects its promise and takes no further step; the other workers
  go on.
\<close>

definition runTests_step ::
  "js_runtime \<Rightarrow> ApiConfig \<Rightarrow> test_mode \<Rightarrow> GlobalSettings \<Rightarrow> dash_state \<Rightarrow> nat \<times> env
     \<Rightarrow> dash_state" where
  "runTests_step rt api mode settings s e =
     (case e of (i, ev) \<Rightarrow>
        if i \<ge> length (d_workers s) then s
        else
          (case d_workers s ! i of
             Finished \<Rightarrow> s
           | Threw err \<Rightarrow> s
           | AtLoopHead \<Rightarrow>
               (case queue s of
                  [] \<Rightarrow> s\<lparr>d_workers := (d_workers s)[i := Finished]\<rparr>
                | mid # rest \<Rightarrow>
                    if mid \<noteq> [] then
                      s\<lparr>queue := rest,
                        d_workers := (d_workers s)[i := Awaiting mid],
                        d_calls := d_calls s @ [(i, mid)]\<rparr>
                    else s\<lparr>queue := rest\<rparr>)
           | Awaiting mid \<Rightarrow>
               (let rounds = (if testRounds settings = 0 then 1 else testRounds settings);
                    useStream = (case stream settings of None \<Rightarrow> False | Some b \<Rightarrow> b);
                    out = (if mode = LatencyMode
                           then testModelLatency rt ev api mid (testTimeout settings) useStream
                           else testModelToolSupport rt ev api mid (testTimeout settings));
                    s1 = s\<lparr>d_store := save_all (saved out) (d_store s)\<rparr>
                in case result out of
                     Inl err \<Rightarrow> s1\<lparr>d_workers := (d_workers s)[i := Threw err]\<rparr>
                   | Inr r \<Rightarrow>
                       (case record_result rt mode rounds mid r s1 of
                          Inl err \<Rightarrow> s1\<lparr>d_workers := (d_workers s)[i := Threw err]\<rparr>
                        | Inr s2 \<Rightarrow> s2\<lparr>d_workers := (d_workers s)[i := AtLoopHead]\<rparr>))))"

definition runTests_run ::
  "js_runtime \<Rightarrow> ApiConfig \<Rightarrow> test_mode \<Rightarrow> GlobalSettings \<Rightarrow> (nat \<times> env) list \<Rightarrow> dash_state
     \<Rightarrow> dash_state" where
  "runTests_run rt api mode settings es s = foldl (runTests_step rt api mode settings) s es"

section \<open>Bulk test: the worker pool of BulkTestView.tsx (handleStart)\<close>

record MatrixCellResult =
  latency :: int
  status :: status
  message :: "jsstring option"
  statusCode :: "nat option"
  requestBody :: "json option"
  responseBody :: "json option"

record MatrixRowResult =
  key :: jsstring
  results :: "jsstring \<rightharpoonup> MatrixCellResult"

text \<open>
  The state of one run; \<open>b_workers\<close>, \<open>b_calls\<close> and \<open>b_store\<close> are the counterparts
  of those of the dashboard.
\<close>

record bulk_state =
  tasks :: "(jsstring \<times> jsstring) list"
  completed :: nat
  matrix :: "MatrixRowResult list"
  progress :: "nat \<times> nat"
  b_workers :: "(jsstring \<times> jsstring) worker list"
  b_calls :: "(nat \<times> jsstring \<times> jsstring) list"
  b_store :: "RequestLog list"

definition tempApi :: "jsstring \<Rightarrow> jsstring \<Rightarrow> ApiConfig" where
  "tempApi base k =
     \<lparr>api_id = ascii ''temp'', api_name = ascii ''temp'', baseUrl = base, apiKey = k,
      connectionMode = Standard, features = Some [FChat], modelsEndpoint = None,
      chatEndpoint = None, customHeaders = None, customParams = None,
      skipAutoCompletion = None, autoV1 = None, createdAt = 0\<rparr>"

definition handleStart_start ::
  "GlobalSettings \<Rightarrow> jsstring \<Rightarrow> jsstring \<Rightarrow> jsstring list \<Rightarrow> RequestLog list
     \<Rightarrow> bulk_state launch" where
  "handleStart_start settings base keysInput targetModels store0 =
     (if trim base = [] then Returned
      else if trim keysInput = [] then Returned
      else if targetModels = [] then Returned
      else
        let keys = filter (\<lambda>k. k \<noteq> []) (map trim (split_lines keysInput))
        in if keys = [] then Returned
           else
             let ts = concat (map (\<lambda>k. map (\<lambda>m. (k, m)) targetModels) keys);
                 n = min (testConcurrency settings) (int (length ts))
             in if n < 0 then RangeError
                else Running \<lparr>tasks = ts,
                              completed = 0,
                              matrix = map (\<lambda>k. \<lparr>key = k, results = Map.empty\<rparr>) keys,
                              progress = (0, length keys * length targetModels),
                              b_workers = replicate (nat n) AtLoopHead,
                              b_calls = [],
                              b_store = store0\<rparr>)"

text \<open>\<open>setResults\<close>: the first row with the key takes the cell; no such row, no change.\<close>

fun set_cell ::
  "jsstring \<Rightarrow> jsstring \<Rightarrow> MatrixCellResult \<Rightarrow> MatrixRowResult list \<Rightarrow> MatrixRowResult list" where
  "set_cell k m c [] = []"
| "set_cell k m c (row # rows) =
     (if key row = k then row\<lparr>results := (results row)(m \<mapsto> c)\<rparr> # rows
      else row # set_cell k m c rows)"

definition cell_of :: "TestResult \<Rightarrow> MatrixCellResult" where
  "cell_of r =
     \<lparr>MatrixCellResult.latency = TestResult.latency r,
      MatrixCellResult.status = TestResult.status r,
      MatrixCellResult.message = TestResult.message r,
      MatrixCellResult.statusCode = TestResult.statusCode r,
      MatrixCellResult.requestBody = TestResult.requestBody r,
      MatrixCellResult.responseBody = TestResult.responseBody r\<rparr>"

text \<open>
  One step of the pool. A task is an object, so the test \<open>if (!task) break\<close> after the
  test of \<open>tasks.length\<close> never breaks. The probe is not a streaming one.
\<close>

definition handleStart_step ::
  "js_runtime \<Rightarrow> GlobalSettings \<Rightarrow> jsstring \<Rightarrow> bulk_state \<Rightarrow> nat \<times> env \<Rightarrow> bulk_state" where
  "handleStart_step rt settings base s e =
     (case e of (i, ev) \<Rightarrow>
        if i \<ge> length (b_workers s) then s
        else
          (case b_workers s ! i of
             Finished \<Rightarrow> s
           | Threw err \<Rightarrow> s
           | AtLoopHead \<Rightarrow>
               (case tasks s of
                  [] \<Rightarrow> s\<lparr>b_workers := (b_workers s)[i := Finished]\<rparr>
                | task # rest \<Rightarrow>
                    s\<lparr>tasks := rest,
                      b_workers := (b_workers s)[i := Awaiting task],
                      b_calls := b_calls s @ [(i, task)]\<rparr>)
           | Awaiting task \<Rightarrow>
               (let k = fst task;
                    m = snd task;
                    out = testModelLatency rt ev (tempApi base k) m (testTimeout settings) False;
                    s1 = s\<lparr>b_store := save_all (saved out) (b_store s)\<rparr>
                in case result out of
                     Inl err \<Rightarrow> s1\<lparr>b_workers := (b_workers s)[i := Threw err]\<rparr>
                   | Inr r \<Rightarrow>
                       s1\<lparr>matrix := set_cell k m (cell_of r) (matrix s),
                          completed := completed s + 1,
                          progress := Pair (completed s + 1) (snd (progress s)),
                          b_workers := (b_workers s)[i := AtLoopHead]\<rparr>)))"

definition handleStart_run ::
  "js_runtime \<Rightarrow> GlobalSettings \<Rightarrow> jsstring \<Rightarrow> (nat \<times> env) list \<Rightarrow> bulk_state \<Rightarrow> bulk_state" where
  "handleStart_run rt settings base es s = foldl (handleStart_step rt settings base) s es"

section \<open>Invariants of the worker pools\<close>








section \<open>The specification's wording of the resolver\<close>

text \<open>
  The resolver as the specification describes it, for comparison with \<open>getEndpoint\<close>:
  in standard mode a trailing slash is cut off the base URL, and nothing else.
\<close>

definition spec_resolve :: "ApiConfig \<Rightarrow> endpoint_type \<Rightarrow> jsstring" where
  "spec_resolve api kind =
     (if connectionMode api = Custom then
        (case (case kind of Models \<Rightarrow> modelsEndpoint api | Chat \<Rightarrow> chatEndpoint api) of
           None \<Rightarrow> []
         | Some e \<Rightarrow> e)
      else
        let b = (if endsWith (baseUrl api) (ascii ''/'') then slice_0_neg1 (baseUrl api)
                 else baseUrl api);
            sfx = (case kind of Models \<Rightarrow> ascii ''models'' | Chat \<Rightarrow> ascii ''chat/completions'')
        in if skipAutoCompletion api = Some True then b @ ascii ''/'' @ sfx
           else if autoV1 api = Some False then b
           else if endsWith b (ascii ''/v1'') then b @ ascii ''/'' @ sfx
           else b @ ascii ''/v1/'' @ sfx)"

section \<open>Folding the rounds of one model\<close>

text \<open>
  The rounds of one model, recorded one after the other as the workers do, up to the
  first that throws; the same when every push succeeds; and the entry the run then shows
  for the model.
\<close>

fun fold_rounds ::
  "js_runtime \<Rightarrow> test_mode \<Rightarrow> int \<Rightarrow> jsstring \<Rightarrow> TestResult list \<Rightarrow> dash_state
     \<Rightarrow> js_error + dash_state" where
  "fold_rounds rt mode rounds mid [] s = Inr s"
| "fold_rounds rt mode rounds mid (r # rs) s =
     (case record_result rt mode rounds mid r s of
        Inl err \<Rightarrow> Inl err
      | Inr s' \<Rightarrow> fold_rounds rt mode rounds mid rs s')"

definition fold_pushed ::
  "test_mode \<Rightarrow> int \<Rightarrow> jsstring \<Rightarrow> TestResult list \<Rightarrow> dash_state \<Rightarrow> dash_state" where
  "fold_pushed mode rounds mid rs s = foldl (\<lambda>st r. push_result mode rounds mid r st) s rs"

definition shown :: "test_mode \<Rightarrow> dash_state \<Rightarrow> jsstring \<Rightarrow> TestResult option" where
  "shown mode s mid = (if mode = LatencyMode then testResults s mid else toolTestResults s mid)"

definition fresh :: dash_state where
  "fresh = \<lparr>queue = [], sessionResults = Map.empty, completedCount = 0,
            testResults = Map.empty, toolTestResults = Map.empty, testProgress = None,
            d_workers = [], d_calls = [], d_store = []\<rparr>"

section \<open>Example values\<close>

definition api_example :: ApiConfig where
  "api_example =
     \<lparr>api_id = ascii ''a1'', api_name = ascii ''example'',
      baseUrl = ascii ''https://api.example.com'', apiKey = ascii ''sk-test'',
      connectionMode = Standard, features = None, modelsEndpoint = None, chatEndpoint = None,
      customHeaders = None, customParams = None, skipAutoCompletion = None, autoV1 = None,
      createdAt = 0\<rparr>"

definition api_trailing_space :: ApiConfig where
  "api_trailing_space =
     api_example\<lparr>baseUrl := ascii ''https://api.example.com '', autoV1 := Some False\<rparr>"

definition api_custom :: ApiConfig where
  "api_custom = api_example\<lparr>connectionMode := Custom,
                             modelsEndpoint := Some (ascii ''https://x.test/list'')\<rparr>"

definition api_legacy :: ApiConfig where
  "api_legacy = api_example\<lparr>baseUrl := ascii ''https://api.example.com/'',
                             skipAutoCompletion := Some True\<rparr>"

definition api_strict :: ApiConfig where
  "api_strict = api_example\<lparr>baseUrl := ascii ''https://api.example.com/custom/path'',
                             autoV1 := Some False\<rparr>"

definition api_v1 :: ApiConfig where
  "api_v1 = api_example\<lparr>baseUrl := ascii '' https://api.example.com/v1/''\<rparr>"

definition api_chat_only :: ApiConfig where
  "api_chat_only = api_example\<lparr>features := Some [FChat]\<rparr>"

text \<open>A text in double quotes.\<close>

definition quoted :: "string \<Rightarrow> jsstring" where
  "quoted s = 34 # ascii s @ [34]"

text \<open>
  Response bodies of the examples and the values they parse to:
  \<^item> \<open>txt_models\<close> a model list with one model, \<open>gpt-4\<close>;
  \<^item> \<open>txt_tool_call\<close> a completion whose first choice carries one tool call;
  \<^item> \<open>txt_text_only\<close> a completion whose first choice carries only text;
  \<^item> \<open>txt_delta\<close> the payload of one streamed line, with content \<open>Hi\<close>;
  \<^item> \<open>txt_html\<close> a body that is not JSON.
\<close>

definition txt_models :: jsstring where
  "txt_models = ascii ''{'' @ quoted ''data'' @ ascii '':[{'' @ quoted ''id'' @ ascii '':''
                @ quoted ''gpt-4'' @ ascii ''}]}''"

definition json_models :: json where
  "json_models = JObj [(ascii ''data'', JArr [JObj [(ascii ''id'', JStr (ascii ''gpt-4''))]])]"

definition txt_tool_call :: jsstring where
  "txt_tool_call = ascii ''{'' @ quoted ''choices'' @ ascii '':[{'' @ quoted ''message''
                   @ ascii '':{'' @ quoted ''tool_calls'' @ ascii '':[{'' @ quoted ''id''
                   @ ascii '':'' @ quoted ''c1'' @ ascii ''}]}}]}''"

definition json_tool_call :: json where
  "json_tool_call =
     JObj [(ascii ''choices'',
            JArr [JObj [(ascii ''message'',
                         JObj [(ascii ''tool_calls'',
                                JArr [JObj [(ascii ''id'', JStr (ascii ''c1''))]])])]])]"

definition txt_text_only :: jsstring where
  "txt_text_only = ascii ''{'' @ quoted ''choices'' @ ascii '':[{'' @ quoted ''message''
                   @ ascii '':{'' @ quoted ''content'' @ ascii '':'' @ quoted ''Hello''
                   @ ascii ''}}]}''"

definition json_text_only :: json where
  "json_text_only =
     JObj [(ascii ''choices'',
            JArr [JObj [(ascii ''message'',
                         JObj [(ascii ''content'', JStr (ascii ''Hello''))])]])]"

definition txt_delta :: jsstring where
  "txt_delta = ascii ''{'' @ quoted ''choices'' @ ascii '':[{'' @ quoted ''delta''
               @ ascii '':{'' @ quoted ''content'' @ ascii '':'' @ quoted ''Hi''
               @ ascii ''}}]}''"

definition json_delta :: json where
  "json_delta =
     JObj [(ascii ''choices'',
            JArr [JObj [(ascii ''delta'', JObj [(ascii ''content'', JStr (ascii ''Hi''))])]])]"

definition txt_html :: jsstring where
  "txt_html = ascii ''<html>''"

definition syntax_error :: js_error where
  "syntax_error = \<lparr>err_name = ascii ''SyntaxError'', err_message = ascii ''Unexpected token''\<rparr>"

text \<open>
  A runtime for the examples. It parses the texts above as the engine does and answers
  any other text with a SyntaxError; the examples parse no other JSON text, print no
  number and compare no string with zero.
\<close>

definition rt_example :: js_runtime where
  "rt_example =
     \<lparr>JSON_parse =
        (\<lambda>t. case map_of [(txt_models, json_models), (txt_tool_call, json_tool_call),
                            (txt_text_only, json_text_only), (txt_delta, json_delta),
                            (ascii ''null'', JNull)] t of
               None \<Rightarrow> Inl syntax_error
             | Some v \<Rightarrow> Inr v),
      JSON_stringify = (\<lambda>v. []),
      num_str = (\<lambda>q. []),
      str_gt0 = (\<lambda>t. False),
      TypeError_null =
        (\<lambda>k. \<lparr>err_name = ascii ''TypeError'',
                err_message = ascii ''Cannot read properties of null''\<rparr>),
      TypeError_not_function =
        (\<lambda>f. \<lparr>err_name = ascii ''TypeError'',
                err_message = f @ ascii '' is not a function''\<rparr>)\<rparr>"

definition response_200 :: "jsstring \<Rightarrow> Response" where
  "response_200 txt =
     \<lparr>Response.status = 200, statusText = ascii ''OK'', body = Some ([txt], None)\<rparr>"

definition response_500 :: "jsstring \<Rightarrow> Response" where
  "response_500 txt =
     \<lparr>Response.status = 500, statusText = ascii ''Internal Server Error'',
      body = Some ([txt], None)\<rparr>"

definition abort_error :: js_error where
  "abort_error = \<lparr>err_name = ascii ''AbortError'',
                  err_message = ascii ''The user aborted a request.''\<rparr>"

definition network_error :: js_error where
  "network_error = \<lparr>err_name = ascii ''TypeError'', err_message = ascii ''Failed to fetch''\<rparr>"

text \<open>An environment in which \<open>fetch\<close> ends as given, 120 ms after the call started.\<close>

definition ev_with :: "fetch_result \<Rightarrow> env" where
  "ev_with f =
     \<lparr>randomUUID = ascii ''id-1'', Date_now_log = 1000, Date_now_result = 1200,
      fetch_outcome = f, elapsed_response = 120, elapsed_consumed = 150,
      elapsed_catch = 160\<rparr>"

text \<open>Three rounds: a success, a failed request, and a completion without a tool call.\<close>

definition round_ok :: TestResult where
  "round_ok =
     \<lparr>modelId = ascii ''gpt-4'', TestResult.latency = 101, TestResult.status = Success,
      TestResult.message = None, TestResult.timestamp = 1200,
      TestResult.statusCode = Some 200, TestResult.requestBody = None,
      TestResult.responseBody = None\<rparr>"

definition round_fail :: TestResult where
  "round_fail =
     \<lparr>modelId = ascii ''gpt-4'', TestResult.latency = 0, TestResult.status = Error,
      TestResult.message = Some (ascii ''HTTP 500 Internal Server Error''),
      TestResult.timestamp = 1300, TestResult.statusCode = Some 500,
      TestResult.requestBody = None, TestResult.responseBody = None\<rparr>"

definition round_text :: TestResult where
  "round_text =
     \<lparr>modelId = ascii ''gpt-4'', TestResult.latency = 80, TestResult.status = Unsupported,
      TestResult.message = Some (ascii ''Model returned text instead of tool call''),
      TestResult.timestamp = 1400, TestResult.statusCode = None,
      TestResult.requestBody = None, TestResult.responseBody = None\<rparr>"

text \<open>Two chat requests, one not streaming and one streaming, and a streamed body.\<close>

definition body_plain :: "(jsstring \<times> json) list" where
  "body_plain = [(ascii ''model'', JStr (ascii ''gpt-4'')), (ascii ''stream'', JBool False)]"

definition body_stream :: "(jsstring \<times> json) list" where
  "body_stream = [(ascii ''model'', JStr (ascii ''gpt-4'')), (ascii ''stream'', JBool True)]"

definition response_sse :: Response where
  "response_sse =
     \<lparr>Response.status = 200, statusText = ascii ''OK'',
      body = Some ([ascii ''data: '' @ txt_delta @ [10], ascii ''data: [DONE]'' @ [10]], None)\<rparr>"

text \<open>
  What holds of the records a call handed to \<open>saveLog\<close>, when it handed over any: they
  carry the identifier the call drew, the store gains exactly one record, the last of
  them, and a query of sufficient limit returns that record.
\<close>

definition leaves_one_record :: "env \<Rightarrow> RequestLog list \<Rightarrow> RequestLog list \<Rightarrow> bool" where
  "leaves_one_record ev store logs \<longleftrightarrow>
     logs \<noteq> []
     \<and> list_all (\<lambda>l. log_id l = randomUUID ev) logs
     \<and> save_all logs store = store @ [last logs]
     \<and> last logs \<in> set (getLogs (Suc (length store)) 0 (save_all logs store))"

text \<open>
  Settings, an environment in which the request is answered with a completion, the states
  in which three runs start, and a schedule in which two workers take turns.
\<close>

definition settings_example :: GlobalSettings where
  "settings_example = \<lparr>testTimeout = 15, testConcurrency = 50, testRounds = 1, stream = Some False\<rparr>"

definition ev_ok :: env where
  "ev_ok = ev_with (Resolved (response_200 txt_text_only))"

definition bulk_start_example :: bulk_state where
  "bulk_start_example =
     \<lparr>tasks = [(ascii ''k1'', ascii ''gpt-4''), (ascii ''k1'', ascii ''gpt-3.5'')],
      completed = 0,
      matrix = [\<lparr>key = ascii ''k1'', results = Map.empty\<rparr>],
      progress = (0, 2),
      b_workers = [AtLoopHead, AtLoopHead],
      b_calls = [],
      b_store = []\<rparr>"

definition dash_start_example :: dash_state where
  "dash_start_example =
     \<lparr>queue = [ascii ''gpt-4'', ascii ''gpt-4''],
      sessionResults = Map.empty,
      completedCount = 0,
      testResults = Map.empty,
      toolTestResults = Map.empty,
      testProgress = Some (0, 2),
      d_workers = [AtLoopHead, AtLoopHead],
      d_calls = [],
      d_store = []\<rparr>"

definition dash_start_empty_id :: dash_state where
  "dash_start_empty_id =
     \<lparr>queue = [[]],
      sessionResults = Map.empty,
      completedCount = 0,
      testResults = Map.empty,
      toolTestResults = Map.empty,
      testProgress = Some (0, 1),
      d_workers = [AtLoopHead],
      d_calls = [],
      d_store = []\<rparr>"

text \<open>The state in which a run on the one model id \<open>constructor\<close> starts.\<close>

definition dash_start_inherited_id :: dash_state where
  "dash_start_inherited_id =
     \<lparr>queue = [ascii ''constructor''],
      sessionResults = Map.empty,
      completedCount = 0,
      testResults = Map.empty,
      toolTestResults = Map.empty,
      testProgress = Some (0, 1),
      d_workers = [AtLoopHead],
      d_calls = [],
      d_store = []\<rparr>"

definition settings_rounds2 :: GlobalSettings where
  "settings_rounds2 = settings_example\<lparr>testRounds := 2\<rparr>"

definition schedule_example :: "(nat \<times> env) list" where
  "schedule_example = [(0, ev_ok), (1, ev_ok), (0, ev_ok), (1, ev_ok), (0, ev_ok), (1, ev_ok)]"

section \<open>Properties\<close>

subsection \<open>Strings\<close>

lemmas str_simps =
  ascii_def trim_def endsWith_def startsWith_def isWhiteSpace_def suffix_of_def
  slice_0_neg1_def slice_0_def trimmed_base_def or_empty_def quoted_def

lemmas api_defs =
  api_example_def api_custom_def api_legacy_def api_strict_def api_v1_def api_chat_only_def
  api_trailing_space_def

lemma or_empty_eq: "or_empty e = (case e of None \<Rightarrow> [] | Some s \<Rightarrow> s)"
  by (simp add: or_empty_def split: option.splits)

subsection \<open>Endpoint resolver\<close>

text \<open>
  C1, as the code has it. In custom mode the stored endpoint of the requested kind comes
  back verbatim, the empty string when there is none. In standard mode the base URL is
  first trimmed of surrounding white space and then of one trailing slash; on that base,
  the legacy flag appends \<open>/models\<close> or \<open>/chat/completions\<close>, an \<open>autoV1\<close> that is
  explicitly false returns the base unchanged, and otherwise the suffix is appended
  directly when the base ends with \<open>/v1\<close> and after \<open>/v1/\<close> when it does not. The
  resolver is the specification's resolver applied to the configuration whose base URL
  has been trimmed of white space.
\<close>

theorem getEndpoint_cases:
  "(connectionMode api = Custom \<longrightarrow>
      getEndpoint api Models = (case modelsEndpoint api of None \<Rightarrow> [] | Some e \<Rightarrow> e)
    \<and> getEndpoint api Chat = (case chatEndpoint api of None \<Rightarrow> [] | Some e \<Rightarrow> e))
 \<and> (connectionMode api = Standard \<longrightarrow>
      (skipAutoCompletion api = Some True \<longrightarrow>
         getEndpoint api Models = trimmed_base (baseUrl api) @ ascii ''/models''
       \<and> getEndpoint api Chat = trimmed_base (baseUrl api) @ ascii ''/chat/completions'')
    \<and> (skipAutoCompletion api \<noteq> Some True \<and> autoV1 api = Some False \<longrightarrow>
         getEndpoint api kind = trimmed_base (baseUrl api))
    \<and> (skipAutoCompletion api \<noteq> Some True \<and> autoV1 api \<noteq> Some False
         \<and> endsWith (trimmed_base (baseUrl api)) (ascii ''/v1'') \<longrightarrow>
         getEndpoint api Models = trimmed_base (baseUrl api) @ ascii ''/models''
       \<and> getEndpoint api Chat = trimmed_base (baseUrl api) @ ascii ''/chat/completions'')
    \<and> (skipAutoCompletion api \<noteq> Some True \<and> autoV1 api \<noteq> Some False
         \<and> \<not> endsWith (trimmed_base (baseUrl api)) (ascii ''/v1'') \<longrightarrow>
         getEndpoint api Models = trimmed_base (baseUrl api) @ ascii ''/v1/models''
       \<and> getEndpoint api Chat = trimmed_base (baseUrl api) @ ascii ''/v1/chat/completions''))
 \<and> getEndpoint api kind = spec_resolve (api\<lparr>baseUrl := trim (baseUrl api)\<rparr>) kind"
  by (cases "connectionMode api"; cases kind; cases "autoV1 api")
     (auto simp: getEndpoint_def spec_resolve_def or_empty_eq suffix_of_def trimmed_base_def
                 ascii_def Let_def
           split: option.splits)

text \<open>
  The five cases at concrete configurations, among them the specification's example:
  base \<open>https://api.example.com\<close> with default settings resolves, for chat, to
  \<open>https://api.example.com/v1/chat/completions\<close>.
\<close>

theorem getEndpoint_cases_witness:
  "connectionMode api_custom = Custom
   \<and> getEndpoint api_custom Models = ascii ''https://x.test/list''
   \<and> getEndpoint api_custom Chat = []
   \<and> connectionMode api_legacy = Standard \<and> skipAutoCompletion api_legacy = Some True
   \<and> getEndpoint api_legacy Models = ascii ''https://api.example.com/models''
   \<and> getEndpoint api_legacy Chat = ascii ''https://api.example.com/chat/completions''
   \<and> autoV1 api_strict = Some False
   \<and> getEndpoint api_strict Chat = ascii ''https://api.example.com/custom/path''
   \<and> endsWith (trimmed_base (baseUrl api_v1)) (ascii ''/v1'')
   \<and> getEndpoint api_v1 Models = ascii ''https://api.example.com/v1/models''
   \<and> getEndpoint api_v1 Chat = ascii ''https://api.example.com/v1/chat/completions''
   \<and> \<not> endsWith (trimmed_base (baseUrl api_example)) (ascii ''/v1'')
   \<and> getEndpoint api_example Models = ascii ''https://api.example.com/v1/models''
   \<and> getEndpoint api_example Chat = ascii ''https://api.example.com/v1/chat/completions''"
  using getEndpoint_cases [of api_custom Chat] getEndpoint_cases [of api_legacy Chat]
    getEndpoint_cases [of api_strict Chat] getEndpoint_cases [of api_v1 Chat]
    getEndpoint_cases [of api_example Chat]
  by (simp add: api_defs str_simps)

text \<open>
  C1 as the specification words it, with only a trailing slash trimmed, fails on a base
  URL that ends with a space: with \<open>autoV1\<close> false the code returns the URL without the
  space, the specification's resolver returns it with the space.
\<close>

theorem getEndpoint_trims_whitespace:
  "getEndpoint api_trailing_space Chat = ascii ''https://api.example.com''
   \<and> spec_resolve api_trailing_space Chat = ascii ''https://api.example.com ''
   \<and> getEndpoint api_trailing_space Chat \<noteq> spec_resolve api_trailing_space Chat"
  by (simp add: api_defs getEndpoint_def spec_resolve_def str_simps)

subsection \<open>fetchModels behind the features list\<close>

text \<open>
  C10: when the features list is present and does not include \<open>models\<close>,
  \<open>fetchModels\<close> returns the empty list and does nothing else: no request is handed
  to \<open>fetch\<close>, no record to \<open>saveLog\<close>, and the result does not depend on what the
  endpoint would resolve to.
\<close>

theorem fetchModels_gated:
  "features api = Some fs \<Longrightarrow> FModels \<notin> set fs \<Longrightarrow>
     fetchModels rt ev api = \<lparr>result = Inr [], saved = [], fetched = []\<rparr>"
  by (simp add: fetchModels_def)

theorem fetchModels_gated_witness:
  "features api_chat_only = Some [FChat] \<and> FModels \<notin> set [FChat]
   \<and> fetchModels rt_example (ev_with (Rejected network_error)) api_chat_only
       = \<lparr>result = Inr [], saved = [], fetched = []\<rparr>"
  using fetchModels_gated [of api_chat_only "[FChat]" rt_example
                              "ev_with (Rejected network_error)"]
  by (simp add: api_defs)

subsection \<open>Aggregation over rounds\<close>

lemma foldl_add_latency:
  "foldl (\<lambda>sum r. sum + TestResult.latency r) a rs = a + sum_list (map TestResult.latency rs)"
  by (induction rs arbitrary: a) auto

lemma sumLatency_sum_list: "sumLatency rs = sum_list (map TestResult.latency rs)"
  by (simp add: sumLatency_def foldl_add_latency)

lemma foldl_count:
  "foldl (\<lambda>n r.
            let n1 = (if mode = LatencyMode \<and> TestResult.status r = Success then n + 1 else n)
            in if mode = ToolMode \<and> TestResult.status r = Supported then n1 + 1 else n1)
         a rs
   = a + length (filter (counts_as_success mode) rs)"
  by (induction rs arbitrary: a; cases mode) (auto simp: counts_as_success_def Let_def)

lemma successCount_filter:
  "successCount mode rs = length (filter (counts_as_success mode) rs)"
  by (simp add: successCount_def foldl_count)

lemma sumLatency_mset: "mset rs = mset rs' \<Longrightarrow> sumLatency rs = sumLatency rs'"
proof -
  assume h: "mset rs = mset rs'"
  have "sum_list (map TestResult.latency rs) = sum_mset (image_mset TestResult.latency (mset rs))"
    by (metis mset_map sum_mset_sum_list)
  moreover have "sum_list (map TestResult.latency rs') = sum_mset (image_mset TestResult.latency (mset rs'))"
    by (metis mset_map sum_mset_sum_list)
  ultimately show ?thesis using h by (simp add: sumLatency_sum_list)
qed

lemma avgLatency_mset: "mset rs = mset rs' \<Longrightarrow> avgLatency rs = avgLatency rs'"
  using sumLatency_mset [of rs rs'] mset_eq_length [of rs rs'] by (simp add: avgLatency_def)

lemma successCount_mset: "mset rs = mset rs' \<Longrightarrow> successCount mode rs = successCount mode rs'"
proof -
  assume h: "mset rs = mset rs'"
  have "mset (filter (counts_as_success mode) rs) = mset (filter (counts_as_success mode) rs')"
    using h by (simp only: mset_filter)
  then show ?thesis by (simp add: successCount_filter mset_eq_length)
qed

lemma newStatus_mset: "mset rs = mset rs' \<Longrightarrow> newStatus mode rs = newStatus mode rs'"
  using successCount_mset [of rs rs' mode] mset_eq_setD [of rs rs']
  by (simp add: newStatus_def list_ex_iff)

lemma run_message_mset:
  "mset rs = mset rs' \<Longrightarrow> run_message mode rounds rs r = run_message mode rounds rs' r"
  by (simp add: run_message_def successCount_mset [of rs rs'] avgLatency_mset [of rs rs'])

lemma aggregate_mset:
  "mset rs = mset rs' \<Longrightarrow> aggregate mode rounds rs r = aggregate mode rounds rs' r"
  by (simp add: aggregate_def avgLatency_mset [of rs rs'] newStatus_mset [of rs rs']
        run_message_mset [of rs rs'])

lemma fold_pushed_snoc:
  "fold_pushed mode rounds mid (rs @ [r]) s = push_result mode rounds mid r (fold_pushed mode rounds mid rs s)"
  by (simp add: fold_pushed_def)

lemma fold_pushed_session:
  "sessionResults (fold_pushed mode rounds mid rs s) mid
     = (if rs = [] then sessionResults s mid
        else Some ((case sessionResults s mid of None \<Rightarrow> [] | Some p \<Rightarrow> p) @ rs))"
proof (induction rs rule: rev_induct)
  case Nil
  then show ?case by (simp add: fold_pushed_def)
next
  case (snoc r rs)
  then show ?case
    by (simp add: fold_pushed_snoc push_result_def Let_def split: option.splits)
qed

lemma fold_pushed_shown:
  "rs \<noteq> [] \<Longrightarrow>
   shown mode (fold_pushed mode rounds mid rs s) mid
     = Some (aggregate mode rounds ((case sessionResults s mid of None \<Rightarrow> [] | Some p \<Rightarrow> p) @ rs) (last rs))"
proof (induction rs rule: rev_induct)
  case Nil
  then show ?case by simp
next
  case (snoc r rs)
  show ?case
    using fold_pushed_session [of mode rounds mid rs s]
    by (cases mode) (auto simp: fold_pushed_snoc push_result_def shown_def Let_def split: option.splits)
qed

lemma fold_pushed_completed:
  "completedCount (fold_pushed mode rounds mid rs s) = completedCount s + length rs"
  by (induction rs rule: rev_induct) (simp_all add: fold_pushed_def push_result_def Let_def)

lemma Math_round_nearest: "\<bar>of_int (Math_round x) - x\<bar> \<le> 1 / 2"
  unfolding Math_round_def by linarith

lemma fold_rounds_pushed:
  "\<not> inherited_key mid \<Longrightarrow>
     fold_rounds rt mode rounds mid rs s = Inr (fold_pushed mode rounds mid rs s)"
  by (induction rs arbitrary: s) (simp_all add: fold_pushed_def record_result_def)

lemma fold_rounds_throws:
  "inherited_key mid \<Longrightarrow> rs \<noteq> [] \<Longrightarrow>
     fold_rounds rt mode rounds mid rs s
       = Inl (TypeError_not_function rt (ascii ''sessionResults[modelId].push''))"
  by (cases rs) (simp_all add: record_result_def)

lemma fold_rounds_returns:
  assumes "fold_rounds rt mode rounds mid rs s = Inr s'" and "rs \<noteq> []"
  shows "\<not> inherited_key mid \<and> s' = fold_pushed mode rounds mid rs s"
proof (cases "inherited_key mid")
  case True
  then show ?thesis using assms fold_rounds_throws [of mid rs rt mode rounds s] by simp
next
  case False
  then show ?thesis using assms fold_rounds_pushed [of mid rt mode rounds rs s] by simp
qed

lemmas round_defs = round_ok_def round_fail_def round_text_def

lemmas agg_defs = fold_pushed_def push_result_def aggregate_def avgLatency_def sumLatency_def
  successCount_def newStatus_def run_message_def message_text_def shown_def fresh_def Math_round_def

lemmas key_defs = inherited_key_def Object_prototype_keys_def record_result_def ascii_def

text \<open>
  C4: for every non-empty sequence \<open>rs\<close> of rounds of a model, the entry computed from it
  has as latency the sum of the latencies of the rounds divided by their number, rounded
  to the nearest integer (a tie going up); the success count is the number of rounds with
  status \<open>success\<close> (in tool mode: \<open>supported\<close>); and the status is, in latency mode,
  \<open>success\<close> when the count is positive and \<open>error\<close> otherwise, and in tool mode
  \<open>supported\<close> when the count is positive, else \<open>error\<close> when some round has status
  \<open>error\<close>, else \<open>unsupported\<close>. This entry is what a run shows for the model when it
  has recorded the rounds, one after the other, from a state that holds no round of the
  model; it records them whenever the model id is not a name that \<open>Object.prototype\<close>
  defines.
\<close>

theorem aggregated_result:
  assumes "rs \<noteq> []"
  shows "TestResult.latency (aggregate mode rounds rs r)
        = \<lfloor>(of_int (sum_list (map TestResult.latency rs)) :: rat) / of_nat (length rs) + 1 / 2\<rfloor>
    \<and> \<bar>(of_int (TestResult.latency (aggregate mode rounds rs r)) :: rat)
         - of_int (sum_list (map TestResult.latency rs)) / of_nat (length rs)\<bar> \<le> 1 / 2
    \<and> successCount mode rs
        = length (filter (\<lambda>r. TestResult.status r = (if mode = LatencyMode then Success else Supported)) rs)
    \<and> (mode = LatencyMode \<longrightarrow>
         TestResult.status (aggregate mode rounds rs r)
           = (if successCount mode rs > 0 then Success else Error))
    \<and> (mode = ToolMode \<longrightarrow>
         TestResult.status (aggregate mode rounds rs r)
           = (if successCount mode rs > 0 then Supported
              else if \<exists>r \<in> set rs. TestResult.status r = Error then Error
              else Unsupported))
    \<and> (sessionResults s mid = None \<and> fold_rounds rt mode rounds mid rs s = Inr s' \<longrightarrow>
         shown mode s' mid = Some (aggregate mode rounds rs (last rs))
         \<and> sessionResults s' mid = Some rs)
    \<and> (\<not> inherited_key mid \<longrightarrow> (\<exists>s'. fold_rounds rt mode rounds mid rs s = Inr s'))"
proof -
  have shown_eq: "sessionResults s mid = None \<and> fold_rounds rt mode rounds mid rs s = Inr s' \<longrightarrow>
         shown mode s' mid = Some (aggregate mode rounds rs (last rs))
         \<and> sessionResults s' mid = Some rs"
  proof
    assume h: "sessionResults s mid = None \<and> fold_rounds rt mode rounds mid rs s = Inr s'"
    then have s': "s' = fold_pushed mode rounds mid rs s"
      using fold_rounds_returns [of rt mode rounds mid rs s s'] assms by simp
    show "shown mode s' mid = Some (aggregate mode rounds rs (last rs))
         \<and> sessionResults s' mid = Some rs"
      unfolding s'
      using fold_pushed_shown [OF assms, of mode rounds mid s]
        fold_pushed_session [of mode rounds mid rs s] h assms by simp
  qed
  have ex: "\<not> inherited_key mid \<longrightarrow> (\<exists>s'. fold_rounds rt mode rounds mid rs s = Inr s')"
    using fold_rounds_pushed [of mid rt mode rounds rs s] by simp
  have lat: "TestResult.latency (aggregate mode rounds rs r)
               = Math_round (of_int (sum_list (map TestResult.latency rs)) / of_nat (length rs))"
    by (simp add: aggregate_def avgLatency_def sumLatency_sum_list)
  have near: "\<bar>(of_int (TestResult.latency (aggregate mode rounds rs r)) :: rat)
         - of_int (sum_list (map TestResult.latency rs)) / of_nat (length rs)\<bar> \<le> 1 / 2"
    unfolding lat by (rule Math_round_nearest)
  have cnt: "successCount mode rs
        = length (filter (\<lambda>r. TestResult.status r = (if mode = LatencyMode then Success else Supported)) rs)"
    using successCount_filter [of mode rs] by (simp add: counts_as_success_def [abs_def])
  have st_lat: "mode = LatencyMode \<longrightarrow>
         TestResult.status (aggregate mode rounds rs r)
           = (if successCount mode rs > 0 then Success else Error)"
    by (simp add: aggregate_def newStatus_def)
  have st_tool: "mode = ToolMode \<longrightarrow>
         TestResult.status (aggregate mode rounds rs r)
           = (if successCount mode rs > 0 then Supported
              else if \<exists>r \<in> set rs. TestResult.status r = Error then Error
              else Unsupported)"
    by (simp add: aggregate_def newStatus_def list_ex_iff)
  show ?thesis
    using shown_eq ex lat near cnt st_lat st_tool unfolding Math_round_def by blast
qed

theorem aggregated_result_witness:
  "[round_ok, round_fail] \<noteq> [] \<and> sessionResults fresh (ascii ''gpt-4'') = None
   \<and> \<not> inherited_key (ascii ''gpt-4'')
   \<and> map_sum id (\<lambda>s. map_option TestResult.latency (shown LatencyMode s (ascii ''gpt-4'')))
        (fold_rounds rt_example LatencyMode 2 (ascii ''gpt-4'') [round_ok, round_fail] fresh)
        = Inr (Some 51)
   \<and> map_sum id (\<lambda>s. map_option TestResult.status (shown LatencyMode s (ascii ''gpt-4'')))
        (fold_rounds rt_example LatencyMode 2 (ascii ''gpt-4'') [round_ok, round_fail] fresh)
        = Inr (Some Success)
   \<and> map_sum id (\<lambda>s. map_option TestResult.status (shown ToolMode s (ascii ''gpt-4'')))
        (fold_rounds rt_example ToolMode 2 (ascii ''gpt-4'') [round_text, round_fail] fresh)
        = Inr (Some Error)
   \<and> map_sum id (\<lambda>s. map_option TestResult.status (shown ToolMode s (ascii ''gpt-4'')))
        (fold_rounds rt_example ToolMode 2 (ascii ''gpt-4'') [round_text, round_text] fresh)
        = Inr (Some Unsupported)
   \<and> TestResult.latency (aggregate LatencyMode 2 [round_ok, round_fail] round_fail) = 51
   \<and> TestResult.status (aggregate LatencyMode 2 [round_ok, round_fail] round_fail) = Success
   \<and> TestResult.status (aggregate ToolMode 2 [round_text, round_fail] round_fail) = Error"
  using aggregated_result [where rs = "[round_ok, round_fail]" and s = fresh
          and mid = "ascii ''gpt-4''" and mode = LatencyMode and rounds = 2
          and rt = rt_example and r = round_fail]
        aggregated_result [where rs = "[round_text, round_fail]" and s = fresh
          and mid = "ascii ''gpt-4''" and mode = ToolMode and rounds = 2
          and rt = rt_example and r = round_fail]
  by (simp add: round_defs agg_defs key_defs)

text \<open>
  C9, as the code has it. Folding a sequence of rounds from the fresh state, when it
  yields an entry, yields \<open>aggregate mode rounds rs (last rs)\<close>, a function of the
  sequence; folding a permutation \<open>rs'\<close> of \<open>rs\<close> then yields an entry too, which is
  \<open>aggregate mode rounds rs (last rs')\<close>: the average latency, the success count and the
  status are the same, and the entries differ only in what they copy from their last
  round, which is its message at the end of the message text and every field but
  latency, status and message. The fold yields an entry whenever the model id is not a
  name that \<open>Object.prototype\<close> defines.
\<close>

theorem aggregation_order:
  assumes "mset rs = mset rs'" and "rs \<noteq> []"
  shows "(fold_rounds rt mode rounds mid rs fresh = Inr s \<longrightarrow>
           shown mode s mid = Some (aggregate mode rounds rs (last rs))
           \<and> (\<exists>t. fold_rounds rt mode rounds mid rs' fresh = Inr t
                  \<and> shown mode t mid = Some (aggregate mode rounds rs (last rs'))))
    \<and> (\<not> inherited_key mid \<longrightarrow> (\<exists>s. fold_rounds rt mode rounds mid rs fresh = Inr s))
    \<and> TestResult.latency (aggregate mode rounds rs (last rs'))
        = TestResult.latency (aggregate mode rounds rs (last rs))
    \<and> TestResult.status (aggregate mode rounds rs (last rs'))
        = TestResult.status (aggregate mode rounds rs (last rs))
    \<and> successCount mode rs' = successCount mode rs
    \<and> avgLatency rs' = avgLatency rs
    \<and> aggregate mode rounds rs' (last rs') = aggregate mode rounds rs (last rs')
    \<and> aggregate mode rounds rs (last rs)
        = (last rs)\<lparr>TestResult.latency := avgLatency rs, TestResult.status := newStatus mode rs,
                    TestResult.message := Some (run_message mode rounds rs (last rs))\<rparr>"
proof -
  have ne: "rs' \<noteq> []" using assms by auto
  have fr: "sessionResults fresh mid = None" by (simp add: fresh_def)
  have a: "fold_rounds rt mode rounds mid rs fresh = Inr s \<longrightarrow>
           shown mode s mid = Some (aggregate mode rounds rs (last rs))
           \<and> (\<exists>t. fold_rounds rt mode rounds mid rs' fresh = Inr t
                  \<and> shown mode t mid = Some (aggregate mode rounds rs (last rs')))"
  proof
    assume h: "fold_rounds rt mode rounds mid rs fresh = Inr s"
    from fold_rounds_returns [OF h assms(2)]
    have k: "\<not> inherited_key mid" and s: "s = fold_pushed mode rounds mid rs fresh" by simp_all
    have 1: "shown mode s mid = Some (aggregate mode rounds rs (last rs))"
      unfolding s using fold_pushed_shown [OF assms(2), of mode rounds mid fresh] fr by simp
    have 2: "fold_rounds rt mode rounds mid rs' fresh = Inr (fold_pushed mode rounds mid rs' fresh)"
      using fold_rounds_pushed [OF k] .
    have "shown mode (fold_pushed mode rounds mid rs' fresh) mid
            = Some (aggregate mode rounds rs' (last rs'))"
      using fold_pushed_shown [OF ne, of mode rounds mid fresh] fr by simp
    then have 3: "shown mode (fold_pushed mode rounds mid rs' fresh) mid
            = Some (aggregate mode rounds rs (last rs'))"
      using aggregate_mset [OF assms(1), of mode rounds "last rs'"] by simp
    show "shown mode s mid = Some (aggregate mode rounds rs (last rs))
           \<and> (\<exists>t. fold_rounds rt mode rounds mid rs' fresh = Inr t
                  \<and> shown mode t mid = Some (aggregate mode rounds rs (last rs')))"
      using 1 2 3 by blast
  qed
  have b: "\<not> inherited_key mid \<longrightarrow> (\<exists>s. fold_rounds rt mode rounds mid rs fresh = Inr s)"
    using fold_rounds_pushed [of mid rt mode rounds rs fresh] by simp
  have c: "aggregate mode rounds rs' (last rs') = aggregate mode rounds rs (last rs')"
    using aggregate_mset [OF assms(1), of mode rounds "last rs'"] by simp
  have d: "TestResult.latency (aggregate mode rounds rs (last rs'))
        = TestResult.latency (aggregate mode rounds rs (last rs))
    \<and> TestResult.status (aggregate mode rounds rs (last rs'))
        = TestResult.status (aggregate mode rounds rs (last rs))
    \<and> aggregate mode rounds rs (last rs)
        = (last rs)\<lparr>TestResult.latency := avgLatency rs, TestResult.status := newStatus mode rs,
                    TestResult.message := Some (run_message mode rounds rs (last rs))\<rparr>"
    by (simp add: aggregate_def)
  show ?thesis
    using a b c d successCount_mset [OF assms(1), of mode] avgLatency_mset [OF assms(1)]
    by simp
qed

theorem aggregation_order_witness:
  "mset [round_ok, round_fail] = mset [round_fail, round_ok] \<and> [round_ok, round_fail] \<noteq> []
   \<and> \<not> inherited_key (ascii ''gpt-4'')
   \<and> map_sum id (\<lambda>s. map_option TestResult.latency (shown LatencyMode s (ascii ''gpt-4'')))
        (fold_rounds rt_example LatencyMode 2 (ascii ''gpt-4'') [round_fail, round_ok] fresh)
        = Inr (Some 51)
   \<and> map_sum id (\<lambda>s. map_option TestResult.latency (shown LatencyMode s (ascii ''gpt-4'')))
        (fold_rounds rt_example LatencyMode 2 (ascii ''gpt-4'') [round_ok, round_fail] fresh)
        = Inr (Some 51)
   \<and> map_sum id (\<lambda>s. map_option TestResult.status (shown LatencyMode s (ascii ''gpt-4'')))
        (fold_rounds rt_example LatencyMode 2 (ascii ''gpt-4'') [round_fail, round_ok] fresh)
        = Inr (Some Success)
   \<and> successCount LatencyMode [round_fail, round_ok] = 1
   \<and> successCount LatencyMode [round_ok, round_fail] = 1"
  using aggregation_order [where rs = "[round_ok, round_fail]" and rs' = "[round_fail, round_ok]"
          and mode = LatencyMode and rounds = 2 and mid = "ascii ''gpt-4''" and rt = rt_example
          and s = "fold_pushed LatencyMode 2 (ascii ''gpt-4'') [round_ok, round_fail] fresh"]
  by (simp add: round_defs agg_defs key_defs)

text \<open>
  C9 as the specification words it, with only the message depending on the order, fails
  on a success followed by a failed request and the same two rounds swapped: the entry
  takes its status code and its timestamp from the last round, 500 and 1300 in one
  order, 200 and 1200 in the other.
\<close>

theorem aggregation_order_statusCode:
  "mset [round_ok, round_fail] = mset [round_fail, round_ok]
   \<and> map_sum id (\<lambda>s. map_option TestResult.statusCode (shown LatencyMode s (ascii ''gpt-4'')))
        (fold_rounds rt_example LatencyMode 2 (ascii ''gpt-4'') [round_ok, round_fail] fresh)
        = Inr (Some (Some 500))
   \<and> map_sum id (\<lambda>s. map_option TestResult.statusCode (shown LatencyMode s (ascii ''gpt-4'')))
        (fold_rounds rt_example LatencyMode 2 (ascii ''gpt-4'') [round_fail, round_ok] fresh)
        = Inr (Some (Some 200))
   \<and> map_sum id (\<lambda>s. map_option TestResult.timestamp (shown LatencyMode s (ascii ''gpt-4'')))
        (fold_rounds rt_example LatencyMode 2 (ascii ''gpt-4'') [round_ok, round_fail] fresh)
        = Inr (Some 1300)
   \<and> map_sum id (\<lambda>s. map_option TestResult.timestamp (shown LatencyMode s (ascii ''gpt-4'')))
        (fold_rounds rt_example LatencyMode 2 (ascii ''gpt-4'') [round_fail, round_ok] fresh)
        = Inr (Some 1200)"
  by (simp add: round_defs agg_defs key_defs)

text \<open>
  A round of a model whose id is \<open>constructor\<close> is not recorded: the push throws.
\<close>

lemma inherited_id_is_not_recorded:
  "inherited_key (ascii ''constructor'')
   \<and> isl (fold_rounds rt_example LatencyMode 1 (ascii ''constructor'') [round_ok] fresh)"
  by (simp add: key_defs)

subsection \<open>The audit log store\<close>

lemma saveLog_idem: "saveLog x (saveLog x store) = saveLog x store"
  by (simp add: saveLog_def)

lemma foldl_saveLog:
  "foldl (\<lambda>st l. saveLog x st) store ls = (if ls = [] then store else saveLog x store)"
  by (induction ls arbitrary: store) (auto simp: saveLog_idem)

lemma save_all_fresh:
  "logs \<noteq> [] \<Longrightarrow> log_id (last logs) \<notin> set (map log_id store) \<Longrightarrow>
     save_all logs store = store @ [last logs]"
  unfolding save_all_def foldl_saveLog by (simp add: saveLog_def)

lemma save_all_Nil: "save_all [] store = store"
  by (simp add: save_all_def)

lemma set_insert_desc: "set (insert_desc l xs) = insert l (set xs)"
  by (induction xs) auto

lemma length_insert_desc: "length (insert_desc l xs) = Suc (length xs)"
  by (induction xs) auto

lemma foldl_insert_desc:
  "set (foldl (\<lambda>acc l. insert_desc l acc) acc xs) = set acc \<union> set xs
   \<and> length (foldl (\<lambda>acc l. insert_desc l acc) acc xs) = length acc + length xs"
  by (induction xs arbitrary: acc) (auto simp: set_insert_desc length_insert_desc)

lemma latest_first_set: "set (latest_first store) = set store"
  using foldl_insert_desc [of "[]" store] by (simp add: latest_first_def)

lemma latest_first_length: "length (latest_first store) = length store"
  using foldl_insert_desc [of "[]" store] by (simp add: latest_first_def)

lemma collect_all:
  "length acc + length xs \<le> limit \<Longrightarrow> collect limit acc xs = acc @ xs"
proof (induction xs arbitrary: acc)
  case Nil
  then show ?case by simp
next
  case (Cons x xs)
  show ?case
  proof (cases "length (acc @ [x]) < limit")
    case True
    then show ?thesis using Cons.IH [of "acc @ [x]"] Cons.prems by (simp add: Let_def)
  next
    case False
    then have "xs = []" using Cons.prems by (cases xs) auto
    then show ?thesis using False by (simp add: Let_def)
  qed
qed

lemma getLogs_all: "length store \<le> limit \<Longrightarrow> set (getLogs limit 0 store) = set store"
  using collect_all [of "[]" "latest_first store" limit]
  by (simp add: getLogs_def latest_first_length latest_first_set)

lemma leaves_one_recordI:
  assumes "logs \<noteq> []" and "list_all (\<lambda>l. log_id l = randomUUID ev) logs"
    and "randomUUID ev \<notin> set (map log_id store)"
  shows "leaves_one_record ev store logs"
proof -
  have "last logs \<in> set logs" using assms(1) by simp
  then have idl: "log_id (last logs) = randomUUID ev"
    using assms(2) by (simp add: list_all_iff)
  then have sv: "save_all logs store = store @ [last logs]"
    using save_all_fresh [OF assms(1)] assms(3) by simp
  have "set (getLogs (Suc (length store)) 0 (store @ [last logs])) = set (store @ [last logs])"
    by (rule getLogs_all) simp
  then show ?thesis
    using assms(1,2) sv by (simp add: leaves_one_record_def)
qed

subsection \<open>The paths of the four operations\<close>

lemmas try_splits = fetch_result.splits sum.splits option.splits prod.splits if_splits json.splits

lemmas exec_defs =
  fetchModels_def fetchModels_try_def fetchModels_errorMsg_def fetchModels_rethrow_def
  testModelLatency_def testModelLatency_try_def testModelLatency_shortMsg_def
  testModelToolSupport_def testModelToolSupport_try_def hasToolCalls_def choice_message_def
  sendChatMessage_def sendChatMessage_try_def chat_errorDetail_def
  read_stream_def read_chunk_def line_content_def
  createLogEntry_def log_failure_def headers_of_def params_of_def spread_def
  latency_requestBody_def tool_requestBody_def
  ok_def text_of_def json_of_def drain_def new_Error_def
  member_def opt_member_def opt_index0_def opt_length_def truthy_def gt_zero_def template_def
  getEndpoint_def Let_def

lemmas example_defs =
  rt_example_def ev_with_def response_200_def response_500_def abort_error_def
  network_error_def syntax_error_def txt_models_def json_models_def txt_tool_call_def
  json_tool_call_def txt_text_only_def json_text_only_def txt_delta_def json_delta_def
  txt_html_def body_plain_def body_stream_def response_sse_def

lemma createLogEntry_id [simp]: "log_id (createLogEntry ev api ty u m mdl rb) = randomUUID ev"
  by (simp add: createLogEntry_def)

lemma log_failure_id [simp]: "log_id (log_failure ev err lg) = log_id lg"
  by (simp add: log_failure_def)

lemma fetchModels_try_rejected:
  "fetch_outcome ev = Rejected err \<Longrightarrow> fetchModels_try rt ev lg = (Inl err, lg, [])"
  by (simp add: fetchModels_try_def)

lemma testModelLatency_try_rejected:
  "fetch_outcome ev = Rejected err \<Longrightarrow> testModelLatency_try rt ev mid st rb lg = (Inl err, lg, [])"
  by (simp add: testModelLatency_try_def)









lemma fetched_requests:
  "((case features api of None \<Rightarrow> True | Some fs \<Rightarrow> FModels \<in> set fs)
      \<and> getEndpoint api Models \<noteq> [] \<longrightarrow>
    fetched (fetchModels rt ev api)
      = [\<lparr>req_url = getEndpoint api Models, req_method = ascii ''GET'',
          req_headers = headers_of api, req_body = None, timeout_ms = Some 10000\<rparr>])
   \<and> (getEndpoint api Chat \<noteq> [] \<longrightarrow>
    fetched (testModelLatency rt ev api mid secs st)
      = [\<lparr>req_url = getEndpoint api Chat, req_method = ascii ''POST'',
          req_headers = headers_of api, req_body = Some (latency_requestBody api mid st),
          timeout_ms = Some (secs * 1000)\<rparr>]
    \<and> fetched (testModelToolSupport rt ev api mid secs)
      = [\<lparr>req_url = getEndpoint api Chat, req_method = ascii ''POST'',
          req_headers = headers_of api, req_body = Some (tool_requestBody api mid),
          timeout_ms = Some (secs * 1000)\<rparr>]
    \<and> fetched (fst (sendChatMessage rt ev api rb))
      = [\<lparr>req_url = getEndpoint api Chat, req_method = ascii ''POST'',
          req_headers = headers_of api,
          req_body = Some (JObj (spread rb (params_of api))), timeout_ms = None\<rparr>])"
  by (auto simp: fetchModels_def testModelLatency_def testModelToolSupport_def
        sendChatMessage_def Let_def split: option.splits prod.splits sum.splits)

lemma sendChat_rethrows:
  "(result (fst (sendChatMessage rt ev api rb)) = Inl e \<longrightarrow>
      (getEndpoint api Chat = [] \<and> saved (fst (sendChatMessage rt ev api rb)) = [])
      \<or> (getEndpoint api Chat \<noteq> [] \<and> saved (fst (sendChatMessage rt ev api rb)) \<noteq> []
          \<and> error (last (saved (fst (sendChatMessage rt ev api rb)))) = Some (err_message e)))
   \<and> (getEndpoint api Chat \<noteq> [] \<and> fetch_outcome ev = Rejected err \<longrightarrow>
        result (fst (sendChatMessage rt ev api rb)) = Inl err)
   \<and> (getEndpoint api Chat \<noteq> [] \<and> fetch_outcome ev = Resolved response \<and> \<not> ok response \<longrightarrow>
        isl (result (fst (sendChatMessage rt ev api rb))))"
  by (auto simp: sendChatMessage_def sendChatMessage_try_def log_failure_def Let_def split: try_splits)

lemma fetchModels_try_logs:
  "fetchModels_try rt ev lg = (x, lg', logs) \<Longrightarrow>
     log_id lg' = log_id lg \<and> list_all (\<lambda>l. log_id l = log_id lg) logs \<and> length logs \<le> 1
     \<and> (\<not> isl x \<longrightarrow> length logs = 1)"
  by (auto simp: fetchModels_try_def Let_def split: try_splits)

lemma testModelLatency_try_logs:
  "testModelLatency_try rt ev mid st rb lg = (x, lg', logs) \<Longrightarrow>
     log_id lg' = log_id lg \<and> list_all (\<lambda>l. log_id l = log_id lg) logs
     \<and> (if isl x then logs = [] else length logs = 1)"
  by (auto simp: testModelLatency_try_def Let_def split: try_splits)

lemma testModelToolSupport_try_logs:
  "testModelToolSupport_try rt ev mid rb lg = (x, lg', logs) \<Longrightarrow>
     log_id lg' = log_id lg \<and> list_all (\<lambda>l. log_id l = log_id lg) logs \<and> length logs \<le> 1
     \<and> (\<not> isl x \<longrightarrow> length logs = 1)"
  by (auto simp: testModelToolSupport_try_def Let_def split: try_splits)

lemma sendChatMessage_try_logs:
  "sendChatMessage_try rt ev fb lg = (x, lg', logs, dl) \<Longrightarrow>
     log_id lg' = log_id lg \<and> list_all (\<lambda>l. log_id l = log_id lg) logs \<and> length logs \<le> 1
     \<and> (\<not> isl x \<longrightarrow> length logs = 1)"
  by (auto simp: sendChatMessage_try_def Let_def split: try_splits)

lemma latency_saved:
  "(getEndpoint api Chat \<noteq> [] \<longrightarrow>
      (\<exists>l. saved (testModelLatency rt ev api mid secs st) = [l] \<and> log_id l = randomUUID ev)
      \<and> length (fetched (testModelLatency rt ev api mid secs st)) = 1)
   \<and> (getEndpoint api Chat = [] \<longrightarrow>
      saved (testModelLatency rt ev api mid secs st) = []
      \<and> fetched (testModelLatency rt ev api mid secs st) = [])"
proof (cases "getEndpoint api Chat = []")
  case True
  then show ?thesis by (simp add: testModelLatency_def)
next
  case False
  define lg where "lg = createLogEntry ev api LTest (getEndpoint api Chat) (ascii ''POST'')
                          (Some (JStr mid)) (Some (latency_requestBody api mid st))"
  obtain x lg' logs where t: "testModelLatency_try rt ev mid st (latency_requestBody api mid st) lg
                                = (x, lg', logs)"
    by (cases "testModelLatency_try rt ev mid st (latency_requestBody api mid st) lg") auto
  from testModelLatency_try_logs [OF t]
  have ids: "log_id lg' = randomUUID ev" "list_all (\<lambda>l. log_id l = randomUUID ev) logs"
    and len: "if isl x then logs = [] else length logs = 1"
    by (simp_all add: lg_def)
  show ?thesis
  proof (cases x)
    case (Inl err)
    then show ?thesis using False t ids len
      by (simp add: testModelLatency_def Let_def lg_def [symmetric])
  next
    case (Inr r)
    then obtain l where "logs = [l]" using len by (cases logs) auto
    then show ?thesis using Inr False t ids
      by (simp add: testModelLatency_def Let_def lg_def [symmetric])
  qed
qed

lemma tool_saved:
  "(getEndpoint api Chat \<noteq> [] \<longrightarrow>
      saved (testModelToolSupport rt ev api mid secs) \<noteq> []
      \<and> list_all (\<lambda>l. log_id l = randomUUID ev) (saved (testModelToolSupport rt ev api mid secs))
      \<and> length (fetched (testModelToolSupport rt ev api mid secs)) = 1)
   \<and> (getEndpoint api Chat = [] \<longrightarrow>
      saved (testModelToolSupport rt ev api mid secs) = []
      \<and> fetched (testModelToolSupport rt ev api mid secs) = [])"
proof (cases "getEndpoint api Chat = []")
  case True
  then show ?thesis by (simp add: testModelToolSupport_def)
next
  case False
  define lg where "lg = createLogEntry ev api LToolCheck (getEndpoint api Chat) (ascii ''POST'')
                          (Some (JStr mid)) (Some (tool_requestBody api mid))"
  obtain x lg' logs where t: "testModelToolSupport_try rt ev mid (tool_requestBody api mid) lg
                                = (x, lg', logs)"
    by (cases "testModelToolSupport_try rt ev mid (tool_requestBody api mid) lg") auto
  from testModelToolSupport_try_logs [OF t]
  have ids: "log_id lg' = randomUUID ev" "list_all (\<lambda>l. log_id l = randomUUID ev) logs"
    and len: "\<not> isl x \<longrightarrow> length logs = 1"
    by (simp_all add: lg_def)
  show ?thesis
  proof (cases x)
    case (Inl err)
    then show ?thesis using False t ids
      by (simp add: testModelToolSupport_def Let_def lg_def [symmetric])
  next
    case (Inr r)
    then have "logs \<noteq> []" using len by auto
    then show ?thesis using Inr False t ids
      by (simp add: testModelToolSupport_def Let_def lg_def [symmetric])
  qed
qed

lemma fetchModels_saved:
  "((case features api of None \<Rightarrow> True | Some fs \<Rightarrow> FModels \<in> set fs)
      \<and> getEndpoint api Models \<noteq> [] \<longrightarrow>
      saved (fetchModels rt ev api) \<noteq> []
      \<and> list_all (\<lambda>l. log_id l = randomUUID ev) (saved (fetchModels rt ev api))
      \<and> length (fetched (fetchModels rt ev api)) = 1)
   \<and> ((case features api of None \<Rightarrow> False | Some fs \<Rightarrow> FModels \<notin> set fs)
      \<or> getEndpoint api Models = [] \<longrightarrow>
      saved (fetchModels rt ev api) = [] \<and> fetched (fetchModels rt ev api) = [])"
proof (cases "(case features api of None \<Rightarrow> False | Some fs \<Rightarrow> FModels \<notin> set fs)
              \<or> getEndpoint api Models = []")
  case True
  then show ?thesis by (auto simp: fetchModels_def split: option.splits)
next
  case False
  then have gate: "\<not> (case features api of None \<Rightarrow> False | Some fs \<Rightarrow> FModels \<notin> set fs)"
    and u: "getEndpoint api Models \<noteq> []" by auto
  define lg where "lg = createLogEntry ev api LModels (getEndpoint api Models) (ascii ''GET'')
                          None None"
  obtain x lg' logs where t: "fetchModels_try rt ev lg = (x, lg', logs)"
    by (cases "fetchModels_try rt ev lg") auto
  from fetchModels_try_logs [OF t]
  have ids: "log_id lg' = randomUUID ev" "list_all (\<lambda>l. log_id l = randomUUID ev) logs"
    and len: "\<not> isl x \<longrightarrow> length logs = 1"
    by (simp_all add: lg_def)
  show ?thesis
  proof (cases x)
    case (Inl err)
    then show ?thesis using gate u t ids
      by (simp add: fetchModels_def Let_def lg_def [symmetric])
  next
    case (Inr r)
    then have "logs \<noteq> []" using len by auto
    then show ?thesis using Inr gate u t ids
      by (simp add: fetchModels_def Let_def lg_def [symmetric])
  qed
qed

lemma sendChat_saved:
  "(getEndpoint api Chat \<noteq> [] \<longrightarrow>
      saved (fst (sendChatMessage rt ev api rb)) \<noteq> []
      \<and> list_all (\<lambda>l. log_id l = randomUUID ev) (saved (fst (sendChatMessage rt ev api rb)))
      \<and> length (fetched (fst (sendChatMessage rt ev api rb))) = 1)
   \<and> (getEndpoint api Chat = [] \<longrightarrow>
      saved (fst (sendChatMessage rt ev api rb)) = []
      \<and> fetched (fst (sendChatMessage rt ev api rb)) = [])"
proof (cases "getEndpoint api Chat = []")
  case True
  then show ?thesis by (simp add: sendChatMessage_def)
next
  case False
  define lg where "lg = createLogEntry ev api LChat (getEndpoint api Chat) (ascii ''POST'')
                          (map_of rb (ascii ''model'')) (Some (JObj (spread rb (params_of api))))"
  obtain x lg' logs dl where t: "sendChatMessage_try rt ev (spread rb (params_of api)) lg
                                = (x, lg', logs, dl)"
    by (cases "sendChatMessage_try rt ev (spread rb (params_of api)) lg") auto
  from sendChatMessage_try_logs [OF t]
  have ids: "log_id lg' = randomUUID ev" "list_all (\<lambda>l. log_id l = randomUUID ev) logs"
    and len: "\<not> isl x \<longrightarrow> length logs = 1"
    by (simp_all add: lg_def)
  show ?thesis
  proof (cases x)
    case (Inl err)
    then show ?thesis using False t ids
      by (simp add: sendChatMessage_def Let_def lg_def [symmetric] log_failure_def)
  next
    case (Inr r)
    then have "logs \<noteq> []" using len by auto
    then show ?thesis using Inr False t ids
      by (simp add: sendChatMessage_def Let_def lg_def [symmetric])
  qed
qed

lemma returns_saved_once:
  "(result (fetchModels rt ev api) = Inr ms \<and> fetched (fetchModels rt ev api) \<noteq> [] \<longrightarrow>
      length (saved (fetchModels rt ev api)) = 1)
   \<and> (result (fst (sendChatMessage rt ev api rb)) = Inr sr \<longrightarrow>
      length (saved (fst (sendChatMessage rt ev api rb))) = 1)"
proof -
  have a: "length (saved (fetchModels rt ev api)) = 1"
    if h: "result (fetchModels rt ev api) = Inr ms" "fetched (fetchModels rt ev api) \<noteq> []"
  proof -
    define lg where "lg = createLogEntry ev api LModels (getEndpoint api Models) (ascii ''GET'')
                            None None"
    obtain x lg' logs where t: "fetchModels_try rt ev lg = (x, lg', logs)"
      by (cases "fetchModels_try rt ev lg") auto
    from fetchModels_try_logs [OF t] have len: "\<not> isl x \<longrightarrow> length logs = 1" by simp
    show ?thesis using h t len
      by (cases x) (auto simp: fetchModels_def Let_def lg_def [symmetric] split: if_splits)
  qed
  have b: "length (saved (fst (sendChatMessage rt ev api rb))) = 1"
    if h: "result (fst (sendChatMessage rt ev api rb)) = Inr sr"
  proof -
    define lg where "lg = createLogEntry ev api LChat (getEndpoint api Chat) (ascii ''POST'')
                          (map_of rb (ascii ''model'')) (Some (JObj (spread rb (params_of api))))"
    obtain x lg' logs dl where t: "sendChatMessage_try rt ev (spread rb (params_of api)) lg
                                  = (x, lg', logs, dl)"
      by (cases "sendChatMessage_try rt ev (spread rb (params_of api)) lg") auto
    from sendChatMessage_try_logs [OF t] have len: "\<not> isl x \<longrightarrow> length logs = 1" by simp
    show ?thesis using h t len
      by (cases x) (auto simp: sendChatMessage_def Let_def lg_def [symmetric] split: if_splits)
  qed
  show ?thesis using a b by blast
qed

lemma foldl_lines_raw:
  "fst (foldl (\<lambda>(raw, ft, dl) line.
                 case line_content rt line of
                   None \<Rightarrow> (raw, ft, dl)
                 | Some content \<Rightarrow> (raw, ft @ ToString rt content, dl @ [content]))
              st ls) = fst st"
  by (induction ls arbitrary: st) (auto split: option.splits prod.splits)

lemma read_chunk_raw: "fst (read_chunk rt st c) = fst st @ c"
  by (cases st) (simp add: read_chunk_def foldl_lines_raw)

lemma foldl_read_chunk_raw: "fst (foldl (read_chunk rt) st chunks) = fst st @ concat chunks"
  by (induction chunks arbitrary: st) (auto simp: read_chunk_raw)

lemma read_stream_raw: "fst (read_stream rt chunks) = concat chunks"
  by (simp add: read_stream_def foldl_read_chunk_raw)

lemma sendChat_returns:
  assumes "result (fst (sendChatMessage rt ev api rb)) = Inr r"
  shows "\<exists>response l.
           fetch_outcome ev = Resolved response \<and> ok response
           \<and> saved (fst (sendChatMessage rt ev api rb)) = [l]
           \<and> (truthy (map_of (spread rb (params_of api)) (ascii ''stream'')) \<longrightarrow>
                (\<exists>chunks. body response = Some (chunks, None)
                   \<and> RequestLog.responseBody l
                       = Some (JObj [(ascii ''stream_length'',
                                      JNum (of_nat (length (fst (read_stream rt chunks))))),
                                     (ascii ''generated_text'',
                                      JStr (fst (snd (read_stream rt chunks))))])
                   \<and> SendMessageResult.responseBody r = fst (read_stream rt chunks)))
           \<and> (\<not> truthy (map_of (spread rb (params_of api)) (ascii ''stream'')) \<longrightarrow>
                (\<exists>data. json_of rt response = Inr data
                   \<and> RequestLog.responseBody l = Some data
                   \<and> SendMessageResult.responseBody r = JSON_stringify rt data))"
proof (cases "getEndpoint api Chat = []")
  case True
  then show ?thesis using assms by (simp add: sendChatMessage_def)
next
  case False
  show ?thesis
  proof (cases "fetch_outcome ev")
    case (Rejected err)
    then show ?thesis using assms False
      by (simp add: sendChatMessage_def sendChatMessage_try_def Let_def)
  next
    case (Resolved response)
    show ?thesis
    proof (cases "ok response")
      case False
      then show ?thesis using assms Resolved \<open>getEndpoint api Chat \<noteq> []\<close>
        by (simp add: sendChatMessage_def sendChatMessage_try_def Let_def split: sum.splits)
    next
      case True
      show ?thesis
      proof (cases "truthy (map_of (spread rb (params_of api)) (ascii ''stream''))")
        case st: True
        then show ?thesis using assms Resolved True \<open>getEndpoint api Chat \<noteq> []\<close>
          by (auto simp: sendChatMessage_def sendChatMessage_try_def Let_def
                split: option.splits prod.splits)
      next
        case st: False
        then show ?thesis using assms Resolved True \<open>getEndpoint api Chat \<noteq> []\<close>
          by (auto simp: sendChatMessage_def sendChatMessage_try_def Let_def
                split: sum.splits if_splits)
      qed
    qed
  qed
qed


subsection \<open>Timeouts\<close>

text \<open>
  C7: when the timer aborts the request in flight, \<open>fetch\<close> rejects with an error named
  \<open>AbortError\<close>. \<open>fetchModels\<close>, whose timer is set to 10 seconds, then throws a new
  error named \<open>Error\<close> whose message is the fixed text of line 239 of the source, the
  timeout message of 10 seconds: not the error it caught, and not the text that stands for
  a network error. \<open>testModelLatency\<close>, whose timer is set to \<open>timeoutSeconds\<close> seconds,
  returns a result with status \<open>error\<close>, latency 0, status code 0 and the message that
  names \<open>timeoutSeconds\<close>, which is not the network error text either. A rejection under
  any other name is reported differently: \<open>fetchModels\<close> throws the very error it caught,
  and the message of \<open>testModelLatency\<close> is that of the error, or the network error text
  when the error has none.
\<close>

theorem timeout_reported:
  assumes "fetch_outcome ev = Rejected err"
  shows "(err_name err = ascii ''AbortError'' \<longrightarrow>
          ((case features api of None \<Rightarrow> True | Some fs \<Rightarrow> FModels \<in> set fs)
             \<and> getEndpoint api Models \<noteq> [] \<longrightarrow>
           result (fetchModels rt ev api)
             = Inl \<lparr>err_name = ascii ''Error'',
                    err_message =
                      [35831, 27714, 36229, 26102] @ ascii '' (10'' @ [31186] @ ascii '')''
                      @ [65292, 35831, 26816, 26597, 32593, 32476, 36830, 25509, 25110, 20195,
                         29702, 35774, 32622]\<rparr>
           \<and> result (fetchModels rt ev api) \<noteq> Inl err
           \<and> result (fetchModels rt ev api) \<noteq> Inl (new_Error msg_network_error)
           \<and> map timeout_ms (fetched (fetchModels rt ev api)) = [Some 10000])
          \<and> (getEndpoint api Chat \<noteq> [] \<longrightarrow>
           (\<exists>r. result (testModelLatency rt ev api mid secs st) = Inr r
                \<and> TestResult.status r = Error
                \<and> TestResult.latency r = 0
                \<and> TestResult.statusCode r = Some 0
                \<and> TestResult.message r
                    = Some ([35831, 27714, 36229, 26102] @ ascii '' ('' @ num_to_str secs
                            @ ascii ''s)'')
                \<and> TestResult.message r \<noteq> Some msg_network_error)
           \<and> map timeout_ms (fetched (testModelLatency rt ev api mid secs st))
               = [Some (secs * 1000)]))
       \<and> (err_name err \<noteq> ascii ''AbortError'' \<longrightarrow>
          ((case features api of None \<Rightarrow> True | Some fs \<Rightarrow> FModels \<in> set fs)
             \<and> getEndpoint api Models \<noteq> [] \<longrightarrow>
           result (fetchModels rt ev api) = Inl err)
          \<and> (getEndpoint api Chat \<noteq> [] \<longrightarrow>
           (\<exists>r. result (testModelLatency rt ev api mid secs st) = Inr r
                \<and> TestResult.status r = Error
                \<and> TestResult.message r
                    = Some (if err_message err \<noteq> [] then err_message err
                            else msg_network_error))))
       \<and> msg_network_error = [32593, 32476, 38169, 35823]"
proof -
  have names: "ascii ''Error'' \<noteq> ascii ''AbortError''"
    by (simp add: ascii_def)
  have f: "(case features api of None \<Rightarrow> True | Some fs \<Rightarrow> FModels \<in> set fs)
             \<and> getEndpoint api Models \<noteq> [] \<longrightarrow>
           result (fetchModels rt ev api) = Inl (fetchModels_rethrow err)
           \<and> map timeout_ms (fetched (fetchModels rt ev api)) = [Some 10000]"
    using assms
    by (auto simp: fetchModels_def fetchModels_try_rejected Let_def split: option.splits)
  have l: "getEndpoint api Chat \<noteq> [] \<longrightarrow>
           (\<exists>r. result (testModelLatency rt ev api mid secs st) = Inr r
                \<and> TestResult.status r = Error
                \<and> TestResult.latency r = 0
                \<and> TestResult.statusCode r = Some 0
                \<and> TestResult.message r
                    = Some (if err_name err = ascii ''AbortError'' then msg_timeout secs
                            else if err_message err \<noteq> [] then err_message err
                            else msg_network_error))
           \<and> map timeout_ms (fetched (testModelLatency rt ev api mid secs st))
               = [Some (secs * 1000)]"
    using assms
    by (auto simp: testModelLatency_def testModelLatency_try_rejected Let_def)
  have t10: "msg_timeout_10
               = [35831, 27714, 36229, 26102] @ ascii '' (10'' @ [31186] @ ascii '')''
                 @ [65292, 35831, 26816, 26597, 32593, 32476, 36830, 25509, 25110, 20195,
                    29702, 35774, 32622]"
    by (simp add: msg_timeout_10_def)
  have t10n: "msg_timeout_10 \<noteq> msg_network_error"
    by (simp add: msg_timeout_10_def msg_network_error_def)
  have ts: "msg_timeout secs
              = [35831, 27714, 36229, 26102] @ ascii '' ('' @ num_to_str secs @ ascii ''s)''"
    by (simp add: msg_timeout_def)
  have tsn: "msg_timeout secs \<noteq> msg_network_error"
    by (simp add: msg_timeout_def msg_network_error_def)
  have abort: "err_name err = ascii ''AbortError'' \<longrightarrow>
                 fetchModels_rethrow err = new_Error msg_timeout_10
                 \<and> new_Error msg_timeout_10 \<noteq> err
                 \<and> new_Error msg_timeout_10 \<noteq> new_Error msg_network_error"
    using names t10n by (auto simp: fetchModels_rethrow_def new_Error_def)
  have other: "err_name err \<noteq> ascii ''AbortError'' \<longrightarrow> fetchModels_rethrow err = err"
    by (simp add: fetchModels_rethrow_def)
  have ne: "new_Error msg_timeout_10
              = \<lparr>err_name = ascii ''Error'',
                 err_message =
                   [35831, 27714, 36229, 26102] @ ascii '' (10'' @ [31186] @ ascii '')''
                   @ [65292, 35831, 26816, 26597, 32593, 32476, 36830, 25509, 25110, 20195,
                      29702, 35774, 32622]\<rparr>"
    using t10 by (simp add: new_Error_def)
  have a1: "err_name err = ascii ''AbortError'' \<longrightarrow>
          ((case features api of None \<Rightarrow> True | Some fs \<Rightarrow> FModels \<in> set fs)
             \<and> getEndpoint api Models \<noteq> [] \<longrightarrow>
           result (fetchModels rt ev api)
             = Inl \<lparr>err_name = ascii ''Error'',
                    err_message =
                      [35831, 27714, 36229, 26102] @ ascii '' (10'' @ [31186] @ ascii '')''
                      @ [65292, 35831, 26816, 26597, 32593, 32476, 36830, 25509, 25110, 20195,
                         29702, 35774, 32622]\<rparr>
           \<and> result (fetchModels rt ev api) \<noteq> Inl err
           \<and> result (fetchModels rt ev api) \<noteq> Inl (new_Error msg_network_error)
           \<and> map timeout_ms (fetched (fetchModels rt ev api)) = [Some 10000])"
    using f abort ne by auto
  have a2: "err_name err = ascii ''AbortError'' \<longrightarrow>
          (getEndpoint api Chat \<noteq> [] \<longrightarrow>
           (\<exists>r. result (testModelLatency rt ev api mid secs st) = Inr r
                \<and> TestResult.status r = Error
                \<and> TestResult.latency r = 0
                \<and> TestResult.statusCode r = Some 0
                \<and> TestResult.message r
                    = Some ([35831, 27714, 36229, 26102] @ ascii '' ('' @ num_to_str secs
                            @ ascii ''s)'')
                \<and> TestResult.message r \<noteq> Some msg_network_error)
           \<and> map timeout_ms (fetched (testModelLatency rt ev api mid secs st))
               = [Some (secs * 1000)])"
    using l ts tsn by auto
  have b1: "err_name err \<noteq> ascii ''AbortError'' \<longrightarrow>
          ((case features api of None \<Rightarrow> True | Some fs \<Rightarrow> FModels \<in> set fs)
             \<and> getEndpoint api Models \<noteq> [] \<longrightarrow>
           result (fetchModels rt ev api) = Inl err)"
    using f other by auto
  have b2: "err_name err \<noteq> ascii ''AbortError'' \<longrightarrow>
          (getEndpoint api Chat \<noteq> [] \<longrightarrow>
           (\<exists>r. result (testModelLatency rt ev api mid secs st) = Inr r
                \<and> TestResult.status r = Error
                \<and> TestResult.message r
                    = Some (if err_message err \<noteq> [] then err_message err
                            else msg_network_error)))"
    using l by auto
  have n: "msg_network_error = [32593, 32476, 38169, 35823]"
    by (simp add: msg_network_error_def)
  show ?thesis
    apply (intro conjI)
    subgoal using a1 a2 by blast
    subgoal using b1 b2 by blast
    subgoal by (rule n)
    done
qed

theorem timeout_reported_witness:
  "fetch_outcome (ev_with (Rejected abort_error)) = Rejected abort_error
   \<and> err_name abort_error = ascii ''AbortError''
   \<and> getEndpoint api_example Models \<noteq> [] \<and> getEndpoint api_example Chat \<noteq> []
   \<and> result (fetchModels rt_example (ev_with (Rejected abort_error)) api_example)
        = Inl \<lparr>err_name = ascii ''Error'',
               err_message =
                 [35831, 27714, 36229, 26102] @ ascii '' (10'' @ [31186] @ ascii '')''
                 @ [65292, 35831, 26816, 26597, 32593, 32476, 36830, 25509, 25110, 20195,
                    29702, 35774, 32622]\<rparr>
   \<and> result (fetchModels rt_example (ev_with (Rejected abort_error)) api_example)
        \<noteq> Inl abort_error
   \<and> map_sum id TestResult.message
        (result (testModelLatency rt_example (ev_with (Rejected abort_error)) api_example
                   (ascii ''gpt-4'') 1 False))
        = Inr (Some ([35831, 27714, 36229, 26102] @ ascii '' (1s)''))
   \<and> map_sum id TestResult.latency
        (result (testModelLatency rt_example (ev_with (Rejected abort_error)) api_example
                   (ascii ''gpt-4'') 1 False))
        = Inr 0"
  using timeout_reported [where ev = "ev_with (Rejected abort_error)" and err = abort_error
          and api = api_example and rt = rt_example and mid = "ascii ''gpt-4''" and secs = 1
          and st = False]
  by (auto simp: ev_with_def abort_error_def api_example_def getEndpoint_def str_simps
        msg_timeout_def num_to_str_def digits.simps)

text \<open>
  The same two calls when the request is rejected by the network instead: the error that
  \<open>fetch\<close> raised reaches the caller of \<open>fetchModels\<close> unchanged, and the result of
  \<open>testModelLatency\<close> carries its message.
\<close>

lemma network_rejection_is_not_a_timeout:
  "result (fetchModels rt_example (ev_with (Rejected network_error)) api_example)
     = Inl \<lparr>err_name = ascii ''TypeError'', err_message = ascii ''Failed to fetch''\<rparr>
   \<and> map_sum id TestResult.message
        (result (testModelLatency rt_example (ev_with (Rejected network_error)) api_example
                   (ascii ''gpt-4'') 1 False))
        = Inr (Some (ascii ''Failed to fetch''))
   \<and> map_sum id TestResult.message
        (result (testModelLatency rt_example
                   (ev_with (Rejected \<lparr>err_name = ascii ''TypeError'', err_message = []\<rparr>))
                   api_example (ascii ''gpt-4'') 1 False))
        = Inr (Some [32593, 32476, 38169, 35823])"
  by (simp add: exec_defs example_defs api_defs str_simps msg_network_error_def)

subsection \<open>Which failures are thrown\<close>



text \<open>
  \<open>fetchModels\<close> on 2xx responses whose body is not a model list: an object without a
  \<open>data\<close> field, a body that is no JSON, and \<open>null\<close>. Each is thrown, and the last record
  handed to \<open>saveLog\<close> holds the message thrown. A response that is not 2xx is thrown
  with its status line and text.
\<close>

lemma fetchModels_throws_malformed_body:
  "result (fetchModels rt_example (ev_with (Resolved (response_200 txt_text_only))) api_example)
     = Inl (new_Error msg_bad_format)
   \<and> map error (saved (fetchModels rt_example (ev_with (Resolved (response_200 txt_text_only)))
                         api_example))
     = [None, Some msg_bad_format]
   \<and> result (fetchModels rt_example (ev_with (Resolved (response_200 txt_html))) api_example)
     = Inl syntax_error
   \<and> map error (saved (fetchModels rt_example (ev_with (Resolved (response_200 txt_html)))
                         api_example))
     = [Some (err_message syntax_error)]
   \<and> result (fetchModels rt_example (ev_with (Resolved (response_200 (ascii ''null''))))
               api_example)
     = Inl \<lparr>err_name = ascii ''TypeError'',
            err_message = ascii ''Cannot read properties of null''\<rparr>
   \<and> isl (result (fetchModels rt_example (ev_with (Resolved (response_500 txt_html)))
                    api_example))
   \<and> map error (saved (fetchModels rt_example (ev_with (Resolved (response_500 txt_html)))
                         api_example))
     = [Some txt_html, map_option err_message
                         (case result (fetchModels rt_example
                                         (ev_with (Resolved (response_500 txt_html)))
                                         api_example) of
                            Inl e \<Rightarrow> Some e | Inr ms \<Rightarrow> None)]"
  by (simp add: exec_defs example_defs api_defs str_simps)


subsection \<open>Classification of tool support\<close>




subsection \<open>One log record per request\<close>

text \<open>
  C2, as the code has it. Let the identifier the call draws be new to the store. A call
  of any of the four operations that resolves a non-empty endpoint (for \<open>fetchModels\<close>:
  and is not stopped by the features list) hands exactly one request to \<open>fetch\<close>: a
  \<open>GET\<close> of the models endpoint with a timer of 10 seconds, or a \<open>POST\<close> of the
  operation's request body to the chat endpoint, with a timer of \<open>timeoutSeconds\<close>
  seconds in the two test operations and none in \<open>sendChatMessage\<close>. Before it returns
  or throws it hands at least one record to \<open>saveLog\<close>, every one under that
  identifier; the store gains exactly one record, which a query of sufficient limit
  returns. \<open>testModelLatency\<close> hands over exactly one record, and so does every call of
  \<open>fetchModels\<close> and \<open>sendChatMessage\<close> that returns its result. A call that resolves an
  empty endpoint, and a \<open>fetchModels\<close> stopped by the features list, issue no request
  and hand over no record.
\<close>

theorem one_record_per_request:
  assumes "randomUUID ev \<notin> set (map log_id store)"
  shows "((case features api of None \<Rightarrow> True | Some fs \<Rightarrow> FModels \<in> set fs)
            \<and> getEndpoint api Models \<noteq> [] \<longrightarrow>
          leaves_one_record ev store (saved (fetchModels rt ev api))
          \<and> length (fetched (fetchModels rt ev api)) = 1
          \<and> fetched (fetchModels rt ev api)
              = [\<lparr>req_url = getEndpoint api Models, req_method = ascii ''GET'',
                  req_headers = headers_of api, req_body = None, timeout_ms = Some 10000\<rparr>])
       \<and> (getEndpoint api Chat \<noteq> [] \<longrightarrow>
          leaves_one_record ev store (saved (testModelLatency rt ev api mid secs st))
          \<and> length (saved (testModelLatency rt ev api mid secs st)) = 1
          \<and> leaves_one_record ev store (saved (testModelToolSupport rt ev api mid secs))
          \<and> leaves_one_record ev store (saved (fst (sendChatMessage rt ev api rb)))
          \<and> fetched (testModelLatency rt ev api mid secs st)
              = [\<lparr>req_url = getEndpoint api Chat, req_method = ascii ''POST'',
                  req_headers = headers_of api,
                  req_body = Some (latency_requestBody api mid st),
                  timeout_ms = Some (secs * 1000)\<rparr>]
          \<and> fetched (testModelToolSupport rt ev api mid secs)
              = [\<lparr>req_url = getEndpoint api Chat, req_method = ascii ''POST'',
                  req_headers = headers_of api, req_body = Some (tool_requestBody api mid),
                  timeout_ms = Some (secs * 1000)\<rparr>]
          \<and> fetched (fst (sendChatMessage rt ev api rb))
              = [\<lparr>req_url = getEndpoint api Chat, req_method = ascii ''POST'',
                  req_headers = headers_of api,
                  req_body = Some (JObj (spread rb (params_of api))), timeout_ms = None\<rparr>])
       \<and> ((case features api of None \<Rightarrow> False | Some fs \<Rightarrow> FModels \<notin> set fs)
            \<or> getEndpoint api Models = [] \<longrightarrow>
          saved (fetchModels rt ev api) = [] \<and> fetched (fetchModels rt ev api) = [])
       \<and> (getEndpoint api Chat = [] \<longrightarrow>
          saved (testModelLatency rt ev api mid secs st) = []
          \<and> saved (testModelToolSupport rt ev api mid secs) = []
          \<and> saved (fst (sendChatMessage rt ev api rb)) = []
          \<and> fetched (testModelLatency rt ev api mid secs st) = []
          \<and> fetched (testModelToolSupport rt ev api mid secs) = []
          \<and> fetched (fst (sendChatMessage rt ev api rb)) = [])
       \<and> (result (fetchModels rt ev api) = Inr ms \<and> fetched (fetchModels rt ev api) \<noteq> [] \<longrightarrow>
          length (saved (fetchModels rt ev api)) = 1)
       \<and> (result (fst (sendChatMessage rt ev api rb)) = Inr sr \<longrightarrow>
          length (saved (fst (sendChatMessage rt ev api rb))) = 1)"
proof -
  note one = leaves_one_recordI [OF _ _ assms]
  note req = fetched_requests [of api rt ev mid secs st rb]
  have f: "(case features api of None \<Rightarrow> True | Some fs \<Rightarrow> FModels \<in> set fs)
            \<and> getEndpoint api Models \<noteq> [] \<longrightarrow>
          leaves_one_record ev store (saved (fetchModels rt ev api))
          \<and> length (fetched (fetchModels rt ev api)) = 1
          \<and> fetched (fetchModels rt ev api)
              = [\<lparr>req_url = getEndpoint api Models, req_method = ascii ''GET'',
                  req_headers = headers_of api, req_body = None, timeout_ms = Some 10000\<rparr>]"
    using fetchModels_saved [of api rt ev] one req by blast
  have l: "getEndpoint api Chat \<noteq> [] \<longrightarrow>
          leaves_one_record ev store (saved (testModelLatency rt ev api mid secs st))
          \<and> length (saved (testModelLatency rt ev api mid secs st)) = 1"
  proof
    assume u: "getEndpoint api Chat \<noteq> []"
    then obtain lg where s: "saved (testModelLatency rt ev api mid secs st) = [lg]"
      and i: "log_id lg = randomUUID ev"
      using latency_saved [of api rt ev mid secs st] by blast
    have "leaves_one_record ev store [lg]" using one [of "[lg]"] i by simp
    then show "leaves_one_record ev store (saved (testModelLatency rt ev api mid secs st))
          \<and> length (saved (testModelLatency rt ev api mid secs st)) = 1"
      using s by simp
  qed
  have t: "getEndpoint api Chat \<noteq> [] \<longrightarrow>
          leaves_one_record ev store (saved (testModelToolSupport rt ev api mid secs))"
    using tool_saved [of api rt ev mid secs] one by blast
  have c: "getEndpoint api Chat \<noteq> [] \<longrightarrow>
          leaves_one_record ev store (saved (fst (sendChatMessage rt ev api rb)))"
    using sendChat_saved [of api rt ev rb] one by blast
  have q: "getEndpoint api Chat \<noteq> [] \<longrightarrow>
          fetched (testModelLatency rt ev api mid secs st)
              = [\<lparr>req_url = getEndpoint api Chat, req_method = ascii ''POST'',
                  req_headers = headers_of api,
                  req_body = Some (latency_requestBody api mid st),
                  timeout_ms = Some (secs * 1000)\<rparr>]
          \<and> fetched (testModelToolSupport rt ev api mid secs)
              = [\<lparr>req_url = getEndpoint api Chat, req_method = ascii ''POST'',
                  req_headers = headers_of api, req_body = Some (tool_requestBody api mid),
                  timeout_ms = Some (secs * 1000)\<rparr>]
          \<and> fetched (fst (sendChatMessage rt ev api rb))
              = [\<lparr>req_url = getEndpoint api Chat, req_method = ascii ''POST'',
                  req_headers = headers_of api,
                  req_body = Some (JObj (spread rb (params_of api))), timeout_ms = None\<rparr>]"
    using req by blast
  have n1: "(case features api of None \<Rightarrow> False | Some fs \<Rightarrow> FModels \<notin> set fs)
            \<or> getEndpoint api Models = [] \<longrightarrow>
          saved (fetchModels rt ev api) = [] \<and> fetched (fetchModels rt ev api) = []"
    using fetchModels_saved [of api rt ev] by blast
  have n2: "getEndpoint api Chat = [] \<longrightarrow>
          saved (testModelLatency rt ev api mid secs st) = []
          \<and> saved (testModelToolSupport rt ev api mid secs) = []
          \<and> saved (fst (sendChatMessage rt ev api rb)) = []
          \<and> fetched (testModelLatency rt ev api mid secs st) = []
          \<and> fetched (testModelToolSupport rt ev api mid secs) = []
          \<and> fetched (fst (sendChatMessage rt ev api rb)) = []"
    using latency_saved [of api rt ev mid secs st] tool_saved [of api rt ev mid secs]
      sendChat_saved [of api rt ev rb] by blast
  show ?thesis
    using f l t c q n1 n2 returns_saved_once [of rt ev api ms rb sr] by blast
qed

theorem one_record_per_request_witness:
  "randomUUID (ev_with (Resolved (response_200 txt_text_only))) \<notin> set (map log_id [])
   \<and> getEndpoint api_example Chat \<noteq> [] \<and> getEndpoint api_example Models \<noteq> []
   \<and> map log_id
        (save_all (saved (testModelLatency rt_example
                            (ev_with (Resolved (response_200 txt_text_only))) api_example
                            (ascii ''gpt-4'') 15 False)) [])
        = [ascii ''id-1'']
   \<and> map RequestLog.status
        (getLogs 1000 0
           (save_all (saved (testModelLatency rt_example
                               (ev_with (Resolved (response_200 txt_text_only))) api_example
                               (ascii ''gpt-4'') 15 False)) []))
        = [200]
   \<and> map req_url
        (fetched (testModelLatency rt_example
                    (ev_with (Resolved (response_200 txt_text_only))) api_example
                    (ascii ''gpt-4'') 15 False))
        = [ascii ''https://api.example.com/v1/chat/completions'']
   \<and> map timeout_ms
        (fetched (testModelToolSupport rt_example
                    (ev_with (Resolved (response_200 txt_text_only))) api_example
                    (ascii ''gpt-4'') 15))
        = [Some 15000]
   \<and> map req_method
        (fetched (fst (sendChatMessage rt_example
                         (ev_with (Resolved (response_200 txt_text_only))) api_example
                         body_plain)))
        = [ascii ''POST'']
   \<and> length (saved (fetchModels rt_example (ev_with (Resolved (response_200 txt_models)))
                       api_example)) = 1
   \<and> length (saved (fst (sendChatMessage rt_example
                            (ev_with (Resolved (response_200 txt_text_only))) api_example
                            body_plain))) = 1"
  using one_record_per_request [where ev = "ev_with (Resolved (response_200 txt_text_only))"
          and store = "[]" and api = api_example and rt = rt_example
          and mid = "ascii ''gpt-4''" and secs = 15 and st = False and rb = body_plain
          and ms = "[]" and sr = "\<lparr>actualBody = [], SendMessageResult.responseBody = []\<rparr>"]
  by (simp add: exec_defs example_defs api_defs str_simps save_all_def saveLog_def
        getLogs_def latest_first_def)

text \<open>
  C2 as the specification words it fails on a configuration without chat endpoint:
  \<open>testModelLatency\<close> returns its error result and no record reaches the store.
\<close>

theorem config_error_leaves_no_record:
  "getEndpoint api_custom Chat = []
   \<and> map_sum id TestResult.status
        (result (testModelLatency rt_example (ev_with (Resolved (response_200 txt_text_only)))
                   api_custom (ascii ''gpt-4'') 15 False)) = Inr Error
   \<and> saved (testModelLatency rt_example (ev_with (Resolved (response_200 txt_text_only)))
              api_custom (ascii ''gpt-4'') 15 False) = []
   \<and> save_all (saved (testModelLatency rt_example
                         (ev_with (Resolved (response_200 txt_text_only)))
                         api_custom (ascii ''gpt-4'') 15 False)) [] = []"
  by (simp add: exec_defs example_defs api_defs str_simps save_all_def)

text \<open>
  On a response that is not 2xx \<open>sendChatMessage\<close> calls \<open>saveLog\<close> before it
  throws and again in its \<open>catch\<close> block; under one key the store still gains one
  record.
\<close>

lemma chat_http_error_saves_twice:
  "length (saved (fst (sendChatMessage rt_example (ev_with (Resolved (response_500 txt_html)))
                         api_example body_plain))) = 2
   \<and> length (save_all (saved (fst (sendChatMessage rt_example
                                     (ev_with (Resolved (response_500 txt_html)))
                                     api_example body_plain))) []) = 1"
  by (simp add: exec_defs example_defs api_defs str_simps save_all_def saveLog_def)

subsection \<open>What sendChatMessage records\<close>

text \<open>
  C8, as the code has it. A call of \<open>sendChatMessage\<close> that returns has handed exactly
  one record to \<open>saveLog\<close>. For a streaming request the response body it records is an
  object of two fields, the length of the raw text of the stream and the generated text;
  the raw text itself is what the call returns. For a request that is not streaming the
  recorded body is the parsed JSON. A call that throws after resolving a non-empty
  endpoint has handed over a record whose error is the message thrown; a call that
  throws for a missing endpoint has handed over none.
\<close>

theorem chat_log_body:
  "(result (fst (sendChatMessage rt ev api rb)) = Inr r \<longrightarrow>
      (\<exists>response l.
           fetch_outcome ev = Resolved response \<and> ok response
           \<and> saved (fst (sendChatMessage rt ev api rb)) = [l]
           \<and> (truthy (map_of (spread rb (params_of api)) (ascii ''stream'')) \<longrightarrow>
                (\<exists>chunks. body response = Some (chunks, None)
                   \<and> RequestLog.responseBody l
                       = Some (JObj [(ascii ''stream_length'',
                                      JNum (of_nat (length (concat chunks)))),
                                     (ascii ''generated_text'',
                                      JStr (fst (snd (read_stream rt chunks))))])
                   \<and> SendMessageResult.responseBody r = concat chunks))
           \<and> (\<not> truthy (map_of (spread rb (params_of api)) (ascii ''stream'')) \<longrightarrow>
                (\<exists>data. json_of rt response = Inr data
                   \<and> RequestLog.responseBody l = Some data
                   \<and> SendMessageResult.responseBody r = JSON_stringify rt data))))
   \<and> (result (fst (sendChatMessage rt ev api rb)) = Inl e \<and> getEndpoint api Chat \<noteq> [] \<longrightarrow>
        saved (fst (sendChatMessage rt ev api rb)) \<noteq> []
        \<and> error (last (saved (fst (sendChatMessage rt ev api rb)))) = Some (err_message e))
   \<and> (result (fst (sendChatMessage rt ev api rb)) = Inl e \<and> getEndpoint api Chat = [] \<longrightarrow>
        saved (fst (sendChatMessage rt ev api rb)) = [])"
proof -
  have a: "result (fst (sendChatMessage rt ev api rb)) = Inr r \<longrightarrow>
      (\<exists>response l.
           fetch_outcome ev = Resolved response \<and> ok response
           \<and> saved (fst (sendChatMessage rt ev api rb)) = [l]
           \<and> (truthy (map_of (spread rb (params_of api)) (ascii ''stream'')) \<longrightarrow>
                (\<exists>chunks. body response = Some (chunks, None)
                   \<and> RequestLog.responseBody l
                       = Some (JObj [(ascii ''stream_length'',
                                      JNum (of_nat (length (concat chunks)))),
                                     (ascii ''generated_text'',
                                      JStr (fst (snd (read_stream rt chunks))))])
                   \<and> SendMessageResult.responseBody r = concat chunks))
           \<and> (\<not> truthy (map_of (spread rb (params_of api)) (ascii ''stream'')) \<longrightarrow>
                (\<exists>data. json_of rt response = Inr data
                   \<and> RequestLog.responseBody l = Some data
                   \<and> SendMessageResult.responseBody r = JSON_stringify rt data)))"
    using sendChat_returns [of rt ev api rb r] by (simp add: read_stream_raw)
  show ?thesis
    using a sendChat_rethrows [of rt ev api rb e] by blast
qed

theorem chat_log_body_witness:
  "\<not> isl (result (fst (sendChatMessage rt_example
                            (ev_with (Resolved (response_200 txt_text_only)))
                            api_example body_plain)))
   \<and> map RequestLog.responseBody
        (saved (fst (sendChatMessage rt_example (ev_with (Resolved (response_200 txt_text_only)))
                       api_example body_plain))) = [Some json_text_only]
   \<and> snd (sendChatMessage rt_example (ev_with (Resolved (response_200 txt_text_only)))
             api_example body_plain) = [JStr (ascii ''Hello'')]
   \<and> result (fst (sendChatMessage rt_example (ev_with (Rejected network_error))
                     api_example body_plain)) = Inl network_error
   \<and> map error (saved (fst (sendChatMessage rt_example (ev_with (Rejected network_error))
                                api_example body_plain))) = [Some (ascii ''Failed to fetch'')]
   \<and> map RequestLog.responseBody
        (saved (fst (sendChatMessage rt_example (ev_with (Rejected network_error))
                       api_example body_plain))) = [None]"
  using chat_log_body [where rt = rt_example
          and ev = "ev_with (Resolved (response_200 txt_text_only))"
          and api = api_example and rb = body_plain
          and r = "\<lparr>actualBody = [], SendMessageResult.responseBody = []\<rparr>"
          and e = network_error]
        chat_log_body [where rt = rt_example and ev = "ev_with (Rejected network_error)"
          and api = api_example and rb = body_plain
          and r = "\<lparr>actualBody = [], SendMessageResult.responseBody = []\<rparr>"
          and e = network_error]
  by (simp add: exec_defs example_defs api_defs str_simps)

text \<open>
  C8 as the specification words it fails on a streaming exchange: the record holds the
  summary object, not the raw text of the stream.
\<close>

theorem chat_stream_log_is_summary:
  "map_sum id SendMessageResult.responseBody
     (result (fst (sendChatMessage rt_example (ev_with (Resolved response_sse))
                     api_example body_stream)))
     = Inr (ascii ''data: '' @ txt_delta @ [10] @ ascii ''data: [DONE]'' @ [10])
   \<and> map RequestLog.responseBody
        (saved (fst (sendChatMessage rt_example (ev_with (Resolved response_sse))
                       api_example body_stream)))
     = [Some (JObj [(ascii ''stream_length'', JNum 60),
                    (ascii ''generated_text'', JStr (ascii ''Hi''))])]
   \<and> map RequestLog.responseBody
        (saved (fst (sendChatMessage rt_example (ev_with (Resolved response_sse))
                       api_example body_stream)))
     \<noteq> [Some (JStr (ascii ''data: '' @ txt_delta @ [10] @ ascii ''data: [DONE]'' @ [10]))]
   \<and> snd (sendChatMessage rt_example (ev_with (Resolved response_sse)) api_example body_stream)
     = [JStr (ascii ''Hi'')]"
  by (simp add: exec_defs example_defs api_defs str_simps)

subsection \<open>The worker pools\<close>





















lemma push_result_fields:
  "queue (push_result mode rounds mid r s) = queue s
   \<and> d_workers (push_result mode rounds mid r s) = d_workers s
   \<and> d_calls (push_result mode rounds mid r s) = d_calls s
   \<and> d_store (push_result mode rounds mid r s) = d_store s
   \<and> completedCount (push_result mode rounds mid r s) = completedCount s + 1
   \<and> testProgress (push_result mode rounds mid r s)
       = (case testProgress s of None \<Rightarrow> None
          | Some (cur, tot) \<Rightarrow> Some (completedCount s + 1, tot))"
  by (simp add: push_result_def Let_def split: option.splits)


lemma runTests_step_workers:
  "length (d_workers (runTests_step rt api mode settings s e)) = length (d_workers s)"
  by (cases e)
     (auto simp: runTests_step_def record_result_def Let_def push_result_fields
           split: worker.splits list.splits sum.splits)



lemma runTests_run_workers:
  "length (d_workers (runTests_run rt api mode settings es s)) = length (d_workers s)"
  unfolding runTests_run_def
  by (induction es arbitrary: s) (auto simp: runTests_step_workers)









lemmas pool_defs =
  handleStart_start_def handleStart_run_def handleStart_step_def tempApi_def
  cell_of_def runTests_start_def runTests_run_def runTests_step_def push_result_def
  record_result_def inherited_key_def Object_prototype_keys_def
  all_finished_def settings_example_def settings_rounds2_def ev_ok_def schedule_example_def
  bulk_start_example_def dash_start_example_def dash_start_empty_id_def
  dash_start_inherited_id_def








text \<open>
  Nor does it hold in the dashboard for a model id that \<open>Object.prototype\<close> defines.
  The worker takes \<open>constructor\<close> from the queue and its probe completes; then
  \<open>sessionResults[modelId]\<close> is the inherited function, \<open>push\<close> is not a function of
  it, and the worker throws. No result is recorded, and the worker takes no further
  step: \<open>Promise.all\<close> rejects, and no continuation of the run sees all workers
  return.
\<close>

lemma runTests_step_thrown:
  assumes "i < length (d_workers s)" and "d_workers s ! i = Threw err"
  shows "d_workers (runTests_step rt api mode settings s e) ! i = Threw err"
proof -
  obtain j ev where e: "e = (j, ev)" by (cases e)
  show ?thesis
  proof (cases "j = i")
    case True
    then show ?thesis using assms e by (simp add: runTests_step_def)
  next
    case False
    then show ?thesis using assms e
      by (auto simp: runTests_step_def record_result_def Let_def push_result_fields
            split: worker.splits list.splits sum.splits)
  qed
qed

lemma runTests_run_thrown:
  assumes "i < length (d_workers s)" and "d_workers s ! i = Threw err"
  shows "d_workers (runTests_run rt api mode settings es s) ! i = Threw err"
  using assms unfolding runTests_run_def
proof (induction es arbitrary: s)
  case Nil
  then show ?case by simp
next
  case (Cons e es)
  have "i < length (d_workers (runTests_step rt api mode settings s e))"
    using Cons.prems(1) by (simp add: runTests_step_workers)
  moreover have "d_workers (runTests_step rt api mode settings s e) ! i = Threw err"
    using runTests_step_thrown [OF Cons.prems] .
  ultimately show ?case using Cons.IH by simp
qed

lemma thrown_worker_never_returns:
  assumes "i < length (d_workers s)" and "d_workers s ! i = Threw err"
  shows "\<not> all_finished (d_workers (runTests_run rt api mode settings es s))"
proof -
  have "d_workers (runTests_run rt api mode settings es s) ! i = Threw err"
    using runTests_run_thrown [OF assms] .
  moreover have "i < length (d_workers (runTests_run rt api mode settings es s))"
    using assms(1) by (simp add: runTests_run_workers)
  ultimately show ?thesis
    by (auto simp: all_finished_def list_all_length)
qed

lemma inherited_model_id_throws:
  "runTests_start settings_example [ascii ''constructor''] Map.empty Map.empty []
     = Running dash_start_inherited_id
   \<and> inherited_key (ascii ''constructor'')
   \<and> d_workers (runTests_run rt_example api_example LatencyMode settings_example
                   [(0, ev_ok), (0, ev_ok)] dash_start_inherited_id)
       = [Threw \<lparr>err_name = ascii ''TypeError'',
                  err_message = ascii ''sessionResults[modelId].push is not a function''\<rparr>]
   \<and> d_calls (runTests_run rt_example api_example LatencyMode settings_example
                 [(0, ev_ok), (0, ev_ok)] dash_start_inherited_id)
       = [(0, ascii ''constructor'')]
   \<and> completedCount (runTests_run rt_example api_example LatencyMode settings_example
                       [(0, ev_ok), (0, ev_ok)] dash_start_inherited_id) = 0
   \<and> testResults (runTests_run rt_example api_example LatencyMode settings_example
                     [(0, ev_ok), (0, ev_ok)] dash_start_inherited_id) (ascii ''constructor'')
       = None
   \<and> \<not> all_finished (d_workers (runTests_run rt_example api_example LatencyMode
                                     settings_example ([(0, ev_ok), (0, ev_ok)] @ es)
                                     dash_start_inherited_id))"
proof -
  have run: "d_workers (runTests_run rt_example api_example LatencyMode settings_example
                   [(0, ev_ok), (0, ev_ok)] dash_start_inherited_id)
       = [Threw \<lparr>err_name = ascii ''TypeError'',
                  err_message = ascii ''sessionResults[modelId].push is not a function''\<rparr>]
   \<and> d_calls (runTests_run rt_example api_example LatencyMode settings_example
                 [(0, ev_ok), (0, ev_ok)] dash_start_inherited_id)
       = [(0, ascii ''constructor'')]
   \<and> completedCount (runTests_run rt_example api_example LatencyMode settings_example
                       [(0, ev_ok), (0, ev_ok)] dash_start_inherited_id) = 0
   \<and> testResults (runTests_run rt_example api_example LatencyMode settings_example
                     [(0, ev_ok), (0, ev_ok)] dash_start_inherited_id) (ascii ''constructor'')
       = None"
    by (simp add: pool_defs exec_defs example_defs api_defs str_simps)
  have start: "runTests_start settings_example [ascii ''constructor''] Map.empty Map.empty []
     = Running dash_start_inherited_id"
    by (simp add: pool_defs str_simps)
  have key: "inherited_key (ascii ''constructor'')"
    by (simp add: inherited_key_def Object_prototype_keys_def)
  have "\<not> all_finished (d_workers (runTests_run rt_example api_example LatencyMode
                                     settings_example es
                                     (runTests_run rt_example api_example LatencyMode
                                        settings_example [(0, ev_ok), (0, ev_ok)]
                                        dash_start_inherited_id)))"
    using run by (intro thrown_worker_never_returns [where i = 0]) simp_all
  then have never: "\<not> all_finished (d_workers (runTests_run rt_example api_example LatencyMode
                                     settings_example ([(0, ev_ok), (0, ev_ok)] @ es)
                                     dash_start_inherited_id))"
    by (simp add: runTests_run_def)
  show ?thesis using run start key never by blast
qed

end
